theory Spec2Isabelle
  imports Main
begin

section \<open>JavaScript values\<close>

text \<open>
  Strings of the program are modelled as \<^typ>\<open>string\<close>, the list of the bytes of their
  UTF-8 encoding; every key, header name and literal of the two adapters is ASCII.

  A value stored in a query object or produced by \<^verbatim>\<open>JSON.parse\<close>. A number keeps the
  text it was written with: its conversion to a double is floating point and not modelled.
  An object is the list of its own properties in insertion order.
\<close>

datatype js_value =
    JUndefined
  | JNull
  | JBool bool
  | JNumber string
  | JString string
  | JArray "js_value list"
  | JObject "(string \<times> js_value) list"

type_synonym js_object = "(string \<times> js_value) list"

text \<open>\<^verbatim>\<open>obj[key]\<close>: the property, \<^verbatim>\<open>undefined\<close> when the object has none of that name.\<close>

definition obj_get :: "js_object \<Rightarrow> string \<Rightarrow> js_value" where
  "obj_get obj key = (case map_of obj key of None \<Rightarrow> JUndefined | Some v \<Rightarrow> v)"

text \<open>\<^verbatim>\<open>obj[key] = v\<close>: an existing property keeps its place, a new one goes last.\<close>

fun obj_set :: "js_object \<Rightarrow> string \<Rightarrow> js_value \<Rightarrow> js_object" where
  "obj_set [] key v = [(key, v)]"
| "obj_set ((k, w) # rest) key v =
     (if k = key then (k, v) # rest else (k, w) # obj_set rest key v)"

text \<open>\<^verbatim>\<open>delete obj[key]\<close>.\<close>

definition obj_delete :: "js_object \<Rightarrow> string \<Rightarrow> js_object" where
  "obj_delete obj key = filter (\<lambda>(k, _). k \<noteq> key) obj"

subsection \<open>Decimal digits and property order\<close>

text \<open>\<open>char_between lo hi c\<close>: the byte \<open>c\<close> lies between \<open>lo\<close> and \<open>hi\<close>.\<close>

definition char_between :: "char \<Rightarrow> char \<Rightarrow> char \<Rightarrow> bool" where
  "char_between lo hi c = ((of_char lo :: nat) \<le> of_char c \<and> (of_char c :: nat) \<le> of_char hi)"

definition is_digit :: "char \<Rightarrow> bool" where
  "is_digit c = char_between CHR ''0'' CHR ''9'' c"

definition digit_val :: "char \<Rightarrow> int" where
  "digit_val c = of_char c - of_char CHR ''0''"

definition dec_val :: "string \<Rightarrow> int" where
  "dec_val s = foldl (\<lambda>n c. 10 * n + digit_val c) 0 s"

text \<open>
  An array index is the canonical decimal text of an integer below \<open>2^32 - 1\<close>. The own
  keys of an ordinary object are listed with the array indices first, in ascending
  numeric order, then the other string keys in insertion order.
\<close>

definition is_array_index :: "string \<Rightarrow> bool" where
  "is_array_index k =
     (k \<noteq> [] \<and> list_all is_digit k \<and> (k = ''0'' \<or> hd k \<noteq> CHR ''0'') \<and>
      length k \<le> 10 \<and> dec_val k < 4294967295)"

fun insert_index :: "string \<Rightarrow> string list \<Rightarrow> string list" where
  "insert_index k [] = [k]"
| "insert_index k (x # xs) =
     (if dec_val k \<le> dec_val x then k # x # xs else x # insert_index k xs)"

definition Object_keys :: "js_object \<Rightarrow> string list" where
  "Object_keys obj =
     (let ks = map fst obj
      in foldr insert_index (filter is_array_index ks) [] @
         filter (\<lambda>k. \<not> is_array_index k) ks)"

text \<open>The decimal text of a natural number, as \<^verbatim>\<open>String(i)\<close> writes an index.\<close>

fun dec_digits :: "nat \<Rightarrow> string \<Rightarrow> string" where
  "dec_digits n acc =
     (if n < 10 then char_of (of_char CHR ''0'' + n) # acc
      else dec_digits (n div 10) (char_of (of_char CHR ''0'' + n mod 10) # acc))"

definition nat_to_string :: "nat \<Rightarrow> string" where
  "nat_to_string n = dec_digits n []"

subsection \<open>Truthiness\<close>

text \<open>
  \<^verbatim>\<open>!v\<close> is true for \<^verbatim>\<open>undefined\<close>, \<^verbatim>\<open>null\<close>, \<^verbatim>\<open>false\<close>, the empty string and a zero
  number. A number is read as zero when its mantissa has no digit other than 0 (an
  underflow of a non-zero text to the double 0 is not modelled).
\<close>

definition number_text_nonzero :: "string \<Rightarrow> bool" where
  "number_text_nonzero s =
     (\<exists>c \<in> set (takeWhile (\<lambda>c. c \<noteq> CHR ''e'' \<and> c \<noteq> CHR ''E'') s).
        char_between CHR ''1'' CHR ''9'' c)"

fun truthy :: "js_value \<Rightarrow> bool" where
  "truthy JUndefined = False"
| "truthy JNull = False"
| "truthy (JBool b) = b"
| "truthy (JNumber s) = number_text_nonzero s"
| "truthy (JString s) = (s \<noteq> [])"
| "truthy (JArray _) = True"
| "truthy (JObject _) = True"

section \<open>Built-ins of the language\<close>

subsection \<open>JSON.parse\<close>

definition is_ws :: "char \<Rightarrow> bool" where
  "is_ws c = (c = CHR 0x20 \<or> c = CHR 0x09 \<or> c = CHR 0x0A \<or> c = CHR 0x0D)"

definition skip_ws :: "string \<Rightarrow> string" where
  "skip_ws s = dropWhile is_ws s"

definition hex_val :: "char \<Rightarrow> int option" where
  "hex_val c =
     (if is_digit c then Some (of_char c - of_char CHR ''0'')
      else if char_between CHR ''a'' CHR ''f'' c then Some (of_char c - of_char CHR ''a'' + 10)
      else if char_between CHR ''A'' CHR ''F'' c then Some (of_char c - of_char CHR ''A'' + 10)
      else None)"

text \<open>
  The characters of a string literal, after its opening quote: a byte of the text, or
  the 16-bit code unit of a \<^verbatim>\<open>\uXXXX\<close> escape.
\<close>

datatype str_unit = Byte char | Unit int

fun json_string_units :: "string \<Rightarrow> (str_unit list \<times> string) option" where
  "json_string_units [] = None"
| "json_string_units (c # rest) =
     (if c = CHR 0x22 then Some ([], rest)
      else if c = CHR 0x5C then
        (case rest of
           [] \<Rightarrow> None
         | e # rest' \<Rightarrow>
             (if e = CHR ''u'' then
                (case rest' of
                   h1 # h2 # h3 # h4 # rest'' \<Rightarrow>
                     (case (hex_val h1, hex_val h2, hex_val h3, hex_val h4) of
                        (Some a, Some b, Some c', Some d) \<Rightarrow>
                          map_option (\<lambda>(us, r). (Unit (4096 * a + 256 * b + 16 * c' + d) # us, r))
                            (json_string_units rest'')
                      | _ \<Rightarrow> None)
                 | _ \<Rightarrow> None)
              else
                (case (if e = CHR 0x22 then Some (CHR 0x22)
                       else if e = CHR 0x5C then Some (CHR 0x5C)
                       else if e = CHR ''/'' then Some CHR ''/''
                       else if e = CHR ''b'' then Some (CHR 0x08)
                       else if e = CHR ''f'' then Some (CHR 0x0C)
                       else if e = CHR ''n'' then Some (CHR 0x0A)
                       else if e = CHR ''r'' then Some (CHR 0x0D)
                       else if e = CHR ''t'' then Some (CHR 0x09)
                       else None) of
                   None \<Rightarrow> None
                 | Some x \<Rightarrow>
                     map_option (\<lambda>(us, r). (Byte x # us, r)) (json_string_units rest'))))
      else if of_char c < (32 :: nat) then None
      else map_option (\<lambda>(us, r). (Byte c # us, r)) (json_string_units rest))"

text \<open>The UTF-8 bytes of a code point (a lone surrogate is written in the same scheme).\<close>

definition utf8_encode :: "int \<Rightarrow> string" where
  "utf8_encode n =
     (if n < 128 then [char_of n]
      else if n < 2048 then [char_of (192 + n div 64), char_of (128 + n mod 64)]
      else if n < 65536 then
        [char_of (224 + n div 4096), char_of (128 + (n div 64) mod 64), char_of (128 + n mod 64)]
      else
        [char_of (240 + n div 262144), char_of (128 + (n div 4096) mod 64),
         char_of (128 + (n div 64) mod 64), char_of (128 + n mod 64)])"

fun units_to_string :: "str_unit list \<Rightarrow> string" where
  "units_to_string [] = []"
| "units_to_string (Byte c # us) = c # units_to_string us"
| "units_to_string (Unit hi # Unit lo # us) =
     (if 55296 \<le> hi \<and> hi < 56320 \<and> 56320 \<le> lo \<and> lo < 57344
      then utf8_encode (65536 + (hi - 55296) * 1024 + (lo - 56320)) @ units_to_string us
      else utf8_encode hi @ units_to_string (Unit lo # us))"
| "units_to_string (Unit u # us) = utf8_encode u @ units_to_string us"

definition json_string :: "string \<Rightarrow> (string \<times> string) option" where
  "json_string s = map_option (\<lambda>(us, r). (units_to_string us, r)) (json_string_units s)"

text \<open>
  A number: an optional minus, \<open>0\<close> or a digit sequence without a leading zero, an
  optional fraction, an optional exponent. The result is the text read and the rest.
\<close>

definition json_digits :: "string \<Rightarrow> (string \<times> string) option" where
  "json_digits s =
     (let ds = takeWhile is_digit s
      in if ds = [] then None else Some (ds, dropWhile is_digit s))"

definition json_int_part :: "string \<Rightarrow> (string \<times> string) option" where
  "json_int_part s =
     (case s of
        [] \<Rightarrow> None
      | c # r \<Rightarrow>
          (if c = CHR ''0'' then Some ([c], r)
           else if is_digit c then Some (c # takeWhile is_digit r, dropWhile is_digit r)
           else None))"

definition json_frac_part :: "string \<Rightarrow> (string \<times> string) option" where
  "json_frac_part s =
     (case s of
        [] \<Rightarrow> Some ([], s)
      | c # r \<Rightarrow>
          (if c = CHR ''.'' then map_option (\<lambda>(ds, r'). (c # ds, r')) (json_digits r)
           else Some ([], s)))"

definition json_exp_part :: "string \<Rightarrow> (string \<times> string) option" where
  "json_exp_part s =
     (case s of
        [] \<Rightarrow> Some ([], s)
      | c # r \<Rightarrow>
          (if c = CHR ''e'' \<or> c = CHR ''E'' then
             (case r of
                [] \<Rightarrow> None
              | g # r' \<Rightarrow>
                  (if g = CHR ''+'' \<or> g = CHR ''-''
                   then map_option (\<lambda>(ds, r''). (c # g # ds, r'')) (json_digits r')
                   else map_option (\<lambda>(ds, r''). (c # ds, r'')) (json_digits r)))
           else Some ([], s)))"

definition json_number :: "string \<Rightarrow> (string \<times> string) option" where
  "json_number s =
     (let (sign, s1) = (case s of [] \<Rightarrow> ([], s)
                        | c # r \<Rightarrow> if c = CHR ''-'' then ([c], r) else ([], s))
      in case json_int_part s1 of
           None \<Rightarrow> None
         | Some (i, s2) \<Rightarrow>
             (case json_frac_part s2 of
                None \<Rightarrow> None
              | Some (f, s3) \<Rightarrow>
                  (case json_exp_part s3 of
                     None \<Rightarrow> None
                   | Some (e, s4) \<Rightarrow> Some (sign @ i @ f @ e, s4))))"

definition json_literal :: "string \<Rightarrow> (js_value \<times> string) option" where
  "json_literal s =
     (if take 4 s = ''true'' then Some (JBool True, drop 4 s)
      else if take 5 s = ''false'' then Some (JBool False, drop 5 s)
      else if take 4 s = ''null'' then Some (JNull, drop 4 s)
      else map_option (\<lambda>(n, r). (JNumber n, r)) (json_number s))"

text \<open>
  Values, array elements and object members. An element list is read after the opening
  bracket, a member list after the opening brace; each recursive call on the rest of the
  text is guarded by the rest being shorter, which always holds.
\<close>

function json_value :: "string \<Rightarrow> (js_value \<times> string) option"
  and json_elements :: "string \<Rightarrow> (js_value list \<times> string) option"
  and json_members :: "string \<Rightarrow> (js_object \<times> string) option"
where
  "json_value s =
     (case skip_ws s of
        [] \<Rightarrow> None
      | c # r \<Rightarrow>
          (if c = CHR ''['' then
             (case skip_ws r of
                [] \<Rightarrow> None
              | d # r' \<Rightarrow>
                  (if d = CHR '']'' then Some (JArray [], r')
                   else map_option (\<lambda>(vs, t). (JArray vs, t)) (json_elements r)))
           else if c = CHR ''{'' then
             (case skip_ws r of
                [] \<Rightarrow> None
              | d # r' \<Rightarrow>
                  (if d = CHR ''}'' then Some (JObject [], r')
                   else map_option (\<lambda>(ms, t). (JObject ms, t)) (json_members r)))
           else if c = CHR 0x22 then map_option (\<lambda>(x, t). (JString x, t)) (json_string r)
           else json_literal (c # r)))"
| "json_elements s =
     (case json_value s of
        None \<Rightarrow> None
      | Some (v, r) \<Rightarrow>
          (case skip_ws r of
             [] \<Rightarrow> None
           | c # r' \<Rightarrow>
               (if c = CHR '']'' then Some ([v], r')
                else if c = CHR '','' \<and> length r' < length s then
                  map_option (\<lambda>(vs, t). (v # vs, t)) (json_elements r')
                else None)))"
| "json_members s =
     (case skip_ws s of
        [] \<Rightarrow> None
      | q # r \<Rightarrow>
          (if q = CHR 0x22 then
             (case json_string r of
                None \<Rightarrow> None
              | Some (k, r1) \<Rightarrow>
                  (case skip_ws r1 of
                     [] \<Rightarrow> None
                   | c # r2 \<Rightarrow>
                       (if c = CHR '':'' \<and> length r2 < length s then
                          (case json_value r2 of
                             None \<Rightarrow> None
                           | Some (v, r3) \<Rightarrow>
                               (case skip_ws r3 of
                                  [] \<Rightarrow> None
                                | d # r4 \<Rightarrow>
                                    (if d = CHR ''}'' then Some ([(k, v)], r4)
                                     else if d = CHR '','' \<and> length r4 < length s then
                                       map_option (\<lambda>(ms, t). ((k, v) # ms, t)) (json_members r4)
                                     else None)))
                        else None)))
           else None))"
  by pat_completeness auto

termination
proof -
  have shorter: "length r < length s" if "skip_ws s = c # r" for s r c
    using that length_dropWhile_le [of is_ws s] by (simp add: skip_ws_def)
  show ?thesis
    by (relation "measures [\<lambda>x. case x of Inl s \<Rightarrow> length s | Inr (Inl s) \<Rightarrow> length s
                                   | Inr (Inr s) \<Rightarrow> length s,
                            \<lambda>x. case x of Inl s \<Rightarrow> 0 | Inr (Inl s) \<Rightarrow> 1 | Inr (Inr s) \<Rightarrow> 1]")
       (auto dest: shorter)
qed

declare json_value.simps [simp del] json_elements.simps [simp del] json_members.simps [simp del]

text \<open>
  \<^verbatim>\<open>JSON.parse(text)\<close>: one value between optional white space; \<open>None\<close> is the
  \<^verbatim>\<open>SyntaxError\<close> it throws. A repeated member name keeps its last value.
\<close>

fun dedup_members :: "js_object \<Rightarrow> js_object \<Rightarrow> js_object" where
  "dedup_members acc [] = acc"
| "dedup_members acc ((k, v) # ms) = dedup_members (obj_set acc k v) ms"

fun json_finish :: "js_value \<Rightarrow> js_value" where
  "json_finish (JArray vs) = JArray (map json_finish vs)"
| "json_finish (JObject ms) = JObject (dedup_members [] (map (\<lambda>(k, v). (k, json_finish v)) ms))"
| "json_finish v = v"

definition JSON_parse :: "string \<Rightarrow> js_value option" where
  "JSON_parse s =
     (case json_value s of
        None \<Rightarrow> None
      | Some (v, r) \<Rightarrow> if skip_ws r = [] then Some (json_finish v) else None)"

subsection \<open>decodeURIComponent\<close>

text \<open>
  A percent escape is a \<open>%\<close> and two hexadecimal digits; the bytes the escapes give
  must be well-formed UTF-8 (no overlong form, no surrogate, nothing above U+10FFFF).
  \<open>None\<close> is the \<^verbatim>\<open>URIError\<close> the function throws.
\<close>

datatype pct_token = Lit char | Esc int

fun pct_tokens :: "string \<Rightarrow> pct_token list option" where
  "pct_tokens [] = Some []"
| "pct_tokens (c # rest) =
     (if c = CHR ''%'' then
        (case rest of
           h1 # h2 # rest' \<Rightarrow>
             (case (hex_val h1, hex_val h2) of
                (Some a, Some b) \<Rightarrow> map_option ((#) (Esc (16 * a + b))) (pct_tokens rest')
              | _ \<Rightarrow> None)
         | _ \<Rightarrow> None)
      else map_option ((#) (Lit c)) (pct_tokens rest))"

definition is_cont :: "int \<Rightarrow> bool" where
  "is_cont b = (128 \<le> b \<and> b < 192)"

fun utf8_join :: "pct_token list \<Rightarrow> string option" where
  "utf8_join [] = Some []"
| "utf8_join (Lit c # ts) = map_option ((#) c) (utf8_join ts)"
| "utf8_join (Esc b # ts) =
     (if b < 128 then map_option ((#) (char_of b)) (utf8_join ts)
      else if 194 \<le> b \<and> b < 224 then
        (case ts of
           Esc b1 # ts1 \<Rightarrow>
             (if is_cont b1
              then map_option (\<lambda>r. char_of b # char_of b1 # r) (utf8_join ts1)
              else None)
         | _ \<Rightarrow> None)
      else if 224 \<le> b \<and> b < 240 then
        (case ts of
           Esc b1 # Esc b2 # ts2 \<Rightarrow>
             (if is_cont b1 \<and> is_cont b2 \<and> (if b = 224 then 160 \<le> b1 else True) \<and>
                 (if b = 237 then b1 < 160 else True)
              then map_option (\<lambda>r. char_of b # char_of b1 # char_of b2 # r) (utf8_join ts2)
              else None)
         | _ \<Rightarrow> None)
      else if 240 \<le> b \<and> b < 245 then
        (case ts of
           Esc b1 # Esc b2 # Esc b3 # ts3 \<Rightarrow>
             (if is_cont b1 \<and> is_cont b2 \<and> is_cont b3 \<and>
                 (if b = 240 then 144 \<le> b1 else True) \<and> (if b = 244 then b1 < 144 else True)
              then map_option (\<lambda>r. char_of b # char_of b1 # char_of b2 # char_of b3 # r)
                     (utf8_join ts3)
              else None)
         | _ \<Rightarrow> None)
      else None)"

definition decodeURIComponent :: "string \<Rightarrow> string option" where
  "decodeURIComponent s = (case pct_tokens s of None \<Rightarrow> None | Some ts \<Rightarrow> utf8_join ts)"

subsection \<open>Number, startsWith, toLowerCase, Object.assign\<close>

text \<open>
  \<^verbatim>\<open>Number(s)\<close> of a header text. A text of one to fifteen decimal digits is that
  integer; for any other text the conversion (white space, signs, fractions, exponents,
  other radices, \<^verbatim>\<open>NaN\<close>) is not evaluated and the value is kept as \<open>NumberOf s\<close>.
\<close>

datatype js_number = JsInt int | NumberOf string

definition Number_of :: "string \<Rightarrow> js_number" where
  "Number_of s =
     (if s \<noteq> [] \<and> list_all is_digit s \<and> length s \<le> 15 then JsInt (dec_val s)
      else NumberOf s)"

definition startsWith :: "string \<Rightarrow> string \<Rightarrow> bool" where
  "startsWith s p = (take (length p) s = p)"

text \<open>\<^verbatim>\<open>toLowerCase\<close> on the ASCII letters (the header names it is applied to are ASCII).\<close>

definition toLowerCase :: "string \<Rightarrow> string" where
  "toLowerCase s =
     map (\<lambda>c. if char_between CHR ''A'' CHR ''Z'' c then char_of (of_char c + (32 :: nat)) else c) s"

text \<open>
  The UTF-16 code units of a string, which are what a JavaScript string is indexed by:
  a code point below \<open>2^16\<close> is one unit (a surrogate written in three bytes too), a
  code point from \<open>2^16\<close> on is a pair of surrogates. A byte that begins no sequence of
  UTF-8 stands for itself.
\<close>

definition continuation :: "char \<Rightarrow> bool" where
  "continuation c = (128 \<le> (of_char c :: int) \<and> (of_char c :: int) < 192)"

definition code_point2 :: "char \<Rightarrow> char \<Rightarrow> int" where
  "code_point2 a b = (of_char a - 192) * 64 + (of_char b - 128)"

definition code_point3 :: "char \<Rightarrow> char \<Rightarrow> char \<Rightarrow> int" where
  "code_point3 a b c = (of_char a - 224) * 4096 + (of_char b - 128) * 64 + (of_char c - 128)"

definition code_point4 :: "char \<Rightarrow> char \<Rightarrow> char \<Rightarrow> char \<Rightarrow> int" where
  "code_point4 a b c d =
     (of_char a - 240) * 262144 + (of_char b - 128) * 4096 + (of_char c - 128) * 64 +
     (of_char d - 128)"

definition surrogate_pair :: "int \<Rightarrow> int list" where
  "surrogate_pair cp = [55296 + (cp - 65536) div 1024, 56320 + (cp - 65536) mod 1024]"

fun code_units :: "string \<Rightarrow> int list" where
  "code_units (a # b # c # d # r) =
     (if 240 \<le> (of_char a :: int) \<and> (of_char a :: int) < 248 \<and> continuation b \<and>
         continuation c \<and> continuation d \<and> 65536 \<le> code_point4 a b c d \<and>
         code_point4 a b c d < 1114112
      then surrogate_pair (code_point4 a b c d) @ code_units r
      else if 224 \<le> (of_char a :: int) \<and> (of_char a :: int) < 240 \<and> continuation b \<and>
              continuation c
      then code_point3 a b c # code_units (d # r)
      else if 192 \<le> (of_char a :: int) \<and> (of_char a :: int) < 224 \<and> continuation b
      then code_point2 a b # code_units (c # d # r)
      else of_char a # code_units (b # c # d # r))"
| "code_units [a, b, c] =
     (if 224 \<le> (of_char a :: int) \<and> (of_char a :: int) < 240 \<and> continuation b \<and>
         continuation c
      then [code_point3 a b c]
      else if 192 \<le> (of_char a :: int) \<and> (of_char a :: int) < 224 \<and> continuation b
      then code_point2 a b # code_units [c]
      else of_char a # code_units [b, c])"
| "code_units [a, b] =
     (if 192 \<le> (of_char a :: int) \<and> (of_char a :: int) < 224 \<and> continuation b
      then [code_point2 a b]
      else of_char a # code_units [b])"
| "code_units [a] = [of_char a]"
| "code_units [] = []"

text \<open>
  The own enumerable properties \<^verbatim>\<open>Object.assign\<close> copies from a source, in the order
  of its own keys: the members of an object, the elements of an array under their
  indices, the code units of a string under theirs (each one a string of one code
  unit), nothing for the other values.
\<close>

definition own_props :: "js_value \<Rightarrow> js_object" where
  "own_props v =
     (case v of
        JObject ms \<Rightarrow> map (\<lambda>k. (k, obj_get ms k)) (Object_keys ms)
      | JArray vs \<Rightarrow> zip (map nat_to_string [0 ..< length vs]) vs
      | JString s \<Rightarrow>
          zip (map nat_to_string [0 ..< length (code_units s)])
              (map (\<lambda>u. JString (utf8_encode u)) (code_units s))
      | _ \<Rightarrow> [])"

text \<open>
  The prototype of an object that \<^verbatim>\<open>Object.assign\<close> writes to: \<^verbatim>\<open>Object.prototype\<close> (an
  object made by a literal or by \<^verbatim>\<open>Object.fromEntries\<close>), none (an object made by
  \<^verbatim>\<open>querystring.parse\<close> or \<^verbatim>\<open>Object.create(null)\<close>), or an object or array that
  \<^verbatim>\<open>JSON.parse\<close> made (whose own prototype is \<^verbatim>\<open>Object.prototype\<close> or
  \<^verbatim>\<open>Array.prototype\<close>).
\<close>

datatype prototype = Object_prototype | Null_prototype | Parsed_prototype js_value

text \<open>
  Whether the lookup of \<^verbatim>\<open>__proto__\<close> along the prototype chain ends at the accessor
  of \<^verbatim>\<open>Object.prototype\<close>: it does unless the chain is empty or an object on it has a
  member of that name.
\<close>

definition reaches_proto_accessor :: "prototype \<Rightarrow> bool" where
  "reaches_proto_accessor p =
     (case p of
        Object_prototype \<Rightarrow> True
      | Null_prototype \<Rightarrow> False
      | Parsed_prototype v \<Rightarrow>
          (case v of JObject ms \<Rightarrow> map_of ms ''__proto__'' = None | _ \<Rightarrow> True))"

text \<open>
  The setter of that accessor: an object or array becomes the prototype, \<^verbatim>\<open>null\<close>
  removes the prototype, any other value is ignored.
\<close>

definition proto_setter :: "prototype \<Rightarrow> js_value \<Rightarrow> prototype" where
  "proto_setter p v =
     (case v of
        JObject ms \<Rightarrow> Parsed_prototype v
      | JArray vs \<Rightarrow> Parsed_prototype v
      | JNull \<Rightarrow> Null_prototype
      | _ \<Rightarrow> p)"

text \<open>
  The assignment \<^verbatim>\<open>target[key] = v\<close> that \<^verbatim>\<open>Object.assign\<close> makes for each property
  of the source. For the key \<^verbatim>\<open>__proto__\<close>, when the target has no own property of that
  name and the accessor is reached, the setter runs and the target gets no own
  property; every other assignment sets an own property of the target (the properties
  that the prototypes above hold are writable data properties).
\<close>

definition assign_property ::
  "js_object \<times> prototype \<Rightarrow> string \<times> js_value \<Rightarrow> js_object \<times> prototype" where
  "assign_property target kv =
     (case target of (t, p) \<Rightarrow>
        (case kv of (k, v) \<Rightarrow>
           (if k = ''__proto__'' \<and> map_of t k = None \<and> reaches_proto_accessor p
            then (t, proto_setter p v)
            else (obj_set t k v, p))))"

text \<open>
  \<^verbatim>\<open>Object.assign(target, source)\<close> on a target with the own properties \<open>t\<close> and the
  prototype \<open>p\<close>: the own properties and the prototype of the target afterwards.
\<close>

definition Object_assign :: "js_object \<Rightarrow> prototype \<Rightarrow> js_value \<Rightarrow> js_object \<times> prototype" where
  "Object_assign t p source = foldl assign_property (t, p) (own_props source)"

section \<open>The request envelope\<close>

text \<open>
  A header is a string, a list of strings, or absent. The metadata side channel is
  modelled from the spec: a mapping attached to the request, written by
  \<^verbatim>\<open>addRequestMeta\<close>.
\<close>

datatype header_value = HString string | HArray "string list"

record request =
  req_method :: string
  url :: string
  headers :: "string \<rightharpoonup> header_value"
  body :: "string list"
  meta :: "string \<rightharpoonup> js_value"

text \<open>
  The parsed URL: its pathname, and its query object, given by the own properties of
  the object and by its prototype.
\<close>

record parsed_url =
  pathname :: "string option"
  query :: js_object
  query_prototype :: prototype

text \<open>
  The result of the locale provider's analysis of a pathname: the locale it detected,
  whether that locale was inferred from the default, and the pathname without its
  locale prefix.
\<close>

record LocaleAnalysisResult =
  detectedLocale :: "string option"
  inferredFromDefault :: bool
  la_pathname :: string

text \<open>
  The state an adapter works on: the request, the parsed URL, and the queries the
  route matcher has received so far (the pathname and the locale analysis of each
  call of \<^verbatim>\<open>matchers.match\<close>, in order).
\<close>

record state =
  req :: request
  parsedURL :: parsed_url
  matcher_queries :: "(string \<times> LocaleAnalysisResult option) list"

text \<open>
  \<open>Error v\<close> is \<^verbatim>\<open>new Error(v)\<close>; \<^verbatim>\<open>new Error()\<close> is \<open>Error JUndefined\<close>. Its message
  is the text of the argument, empty for \<^verbatim>\<open>undefined\<close>; the text of a number, an
  array or an object is not modelled.
\<close>

datatype js_error = Error js_value

fun error_message :: "js_error \<Rightarrow> string option" where
  "error_message (Error JUndefined) = Some []"
| "error_message (Error (JString s)) = Some s"
| "error_message (Error JNull) = Some ''null''"
| "error_message (Error (JBool b)) = Some (if b then ''true'' else ''false'')"
| "error_message (Error _) = None"

text \<open>
  What the adapters throw. An \<^verbatim>\<open>InvokeError\<close> carries its status code, its cause
  (\<^verbatim>\<open>null\<close> is \<open>None\<close>) and the query object it was given: the own properties and the
  prototype of that object.
\<close>

datatype exn =
    Fatal js_error
  | InvokeError js_number "js_error option" js_object prototype
  | SyntaxError
  | URIError
  | TypeError

text \<open>
  An adapter returns, or throws; the objects it was given are mutated in place, so the
  state at the throw is part of the outcome.
\<close>

datatype outcome = Returned state | Thrown exn state

text \<open>Modelled from the spec: \<^verbatim>\<open>addRequestMeta\<close> stores the entry in the side channel.\<close>

definition addRequestMeta :: "request \<Rightarrow> string \<Rightarrow> js_value \<Rightarrow> request" where
  "addRequestMeta r key v = r\<lparr>meta := (meta r)(key \<mapsto> v)\<rparr>"

definition pathname_value :: "string option \<Rightarrow> js_value" where
  "pathname_value p = (case p of None \<Rightarrow> JNull | Some s \<Rightarrow> JString s)"

section \<open>InternalRequestAdapter\<close>

text \<open>The loop that strips the query keys not associated with internal Next.js.\<close>

fun strip_loop :: "string list \<Rightarrow> js_object \<Rightarrow> js_object" where
  "strip_loop [] q = q"
| "strip_loop (key # keys) q =
     strip_loop keys
       (if \<not> startsWith key ''__next'' \<and> \<not> startsWith key ''_next'' then obj_delete q key else q)"

definition strip_query :: "js_object \<Rightarrow> js_object" where
  "strip_query q = strip_loop (Object_keys q) q"

text \<open>
  \<^verbatim>\<open>Object.assign(parsedURL.query, JSON.parse(decodeURIComponent(query)))\<close> when the
  \<^verbatim>\<open>x-invoke-query\<close> header is a string.
\<close>

definition apply_invoke_query ::
  "header_value option \<Rightarrow> js_object \<Rightarrow> prototype \<Rightarrow> exn + js_object \<times> prototype" where
  "apply_invoke_query h q p =
     (case h of
        Some (HString text) \<Rightarrow>
          (case decodeURIComponent text of
             None \<Rightarrow> Inl URIError
           | Some decoded \<Rightarrow>
               (case JSON_parse decoded of
                  None \<Rightarrow> Inl SyntaxError
                | Some v \<Rightarrow> Inr (Object_assign q p v)))
      | _ \<Rightarrow> Inr (q, p))"

text \<open>
  \<^verbatim>\<open>const { message } = JSON.parse(...); cause = new Error(message)\<close> inside the
  \<^verbatim>\<open>try\<close>, \<^verbatim>\<open>cause = new Error()\<close> in the \<^verbatim>\<open>catch\<close>: a text that does not parse and
  the value \<^verbatim>\<open>null\<close> (which cannot be destructured) both end in the \<^verbatim>\<open>catch\<close>.
\<close>

definition invoke_error_cause :: "string \<Rightarrow> js_error" where
  "invoke_error_cause text =
     (case JSON_parse text of
        None \<Rightarrow> Error JUndefined
      | Some JNull \<Rightarrow> Error JUndefined
      | Some (JObject ms) \<Rightarrow> Error (obj_get ms ''message'')
      | Some _ \<Rightarrow> Error JUndefined)"

text \<open>
  \<open>base_adapt\<close> is \<^verbatim>\<open>super.adapt\<close>, the adapter of \<^verbatim>\<open>BaseRequestAdapter\<close>, whose
  source is not part of the two files: it is a parameter.
\<close>

definition InternalRequestAdapter_adapt :: "(state \<Rightarrow> outcome) \<Rightarrow> state \<Rightarrow> outcome" where
  "InternalRequestAdapter_adapt base_adapt st =
     (case headers (req st) ''x-invoke-path'' of
        Some (HString invokePath) \<Rightarrow>
          (if invokePath = [] then Returned st
           else
             (let st1 = st\<lparr>parsedURL := (parsedURL st)\<lparr>query := strip_query (query (parsedURL st))\<rparr>\<rparr>
              in (case apply_invoke_query (headers (req st1) ''x-invoke-query'')
                         (query (parsedURL st1)) (query_prototype (parsedURL st1)) of
                    Inl e \<Rightarrow> Thrown e st1
                  | Inr (q2, p2) \<Rightarrow>
                      (let st2 = st1\<lparr>parsedURL := (parsedURL st1)\<lparr>query := q2,
                                                                  query_prototype := p2\<rparr>\<rparr>
                       in (case headers (req st2) ''x-invoke-status'' of
                             Some (HString status) \<Rightarrow>
                               (let statusCode = Number_of status;
                                    cause = (case headers (req st2) ''x-invoke-error'' of
                                               Some (HString text) \<Rightarrow> Some (invoke_error_cause text)
                                             | _ \<Rightarrow> None)
                                in Thrown (InvokeError statusCode cause (query (parsedURL st2))
                                             (query_prototype (parsedURL st2))) st2)
                           | _ \<Rightarrow>
                               (let originalPathname = pathname (parsedURL st2);
                                    st3 = (if pathname (parsedURL st2) \<noteq> Some invokePath
                                           then st2\<lparr>parsedURL := (parsedURL st2)\<lparr>pathname := Some invokePath\<rparr>\<rparr>
                                           else st2)
                                in (case base_adapt st3 of
                                      Thrown e st4 \<Rightarrow> Thrown e st4
                                    | Returned st4 \<Rightarrow>
                                        (if originalPathname \<noteq> pathname (parsedURL st4)
                                         then Returned (st4\<lparr>req := addRequestMeta (req st4) ''rewroteURL''
                                                         (pathname_value (pathname (parsedURL st4)))\<rparr>)
                                         else Returned st4))))))))
      | _ \<Rightarrow> Returned st)"

section \<open>Collaborators of MinimalRequestAdapter\<close>

text \<open>
  The adapter is written against modules of the server that are not part of the two
  files. Each one is a parameter of the model, with the interface the adapter uses and
  the spec names: a collaborator is a function of its arguments, reads the objects it is
  given and changes only what its interface returns.
\<close>

text \<open>\<^verbatim>\<open>normalizer.match(pathname)\<close> and \<^verbatim>\<open>normalizer.normalize(pathname, matched?)\<close>.\<close>

record PathnameNormalizer =
  nz_match :: "string \<Rightarrow> bool"
  nz_normalize :: "string \<Rightarrow> bool option \<Rightarrow> string"

record DomainLocale =
  dl_domain :: string
  dl_defaultLocale :: string

text \<open>
  \<^verbatim>\<open>analyze(pathname, options?)\<close>: the second argument is \<open>None\<close> when the call passes no
  options and \<open>Some d\<close> for the options \<^verbatim>\<open>{ defaultLocale: d }\<close>.
\<close>

record I18NProvider =
  analyze :: "string \<Rightarrow> string option option \<Rightarrow> LocaleAnalysisResult option"
  detectDomainLocale :: "string option \<Rightarrow> DomainLocale option"
  config_defaultLocale :: string

text \<open>A route match: \<^verbatim>\<open>match.definition.pathname\<close> and \<^verbatim>\<open>match.params\<close>.\<close>

record RouteMatch =
  definition_pathname :: string
  rm_params :: "js_object option"

record Rewrite =
  rw_source :: string
  rw_destination :: string

record Rewrites =
  beforeFiles :: "Rewrite list"
  afterFiles :: "Rewrite list"
  fallback :: "Rewrite list"

record NormalizedRouteManifest =
  mf_rewrites :: Rewrites

record I18NConfig =
  cfg_locales :: "string list"
  cfg_defaultLocale :: string

datatype ExperimentalPPRConfig = PPR_undefined | PPR_boolean bool | PPR_incremental

record NextConfig =
  cfg_basePath :: string
  experimental_ppr :: ExperimentalPPRConfig
  experimental_caseSensitiveRoutes :: "bool option"
  cfg_i18n :: "I18NConfig option"

record NextEnabledDirectories =
  app :: bool
  pages :: bool

text \<open>
  The result of \<^verbatim>\<open>normalizeDynamicRouteParams\<close>; its \<^verbatim>\<open>params\<close> object is given by its
  own properties and its prototype.
\<close>

record ParamsResult =
  hasValidParams :: bool
  params :: js_object
  params_prototype :: prototype

record getUtils_options =
  go_pageIsDynamic :: bool
  go_page :: string
  go_i18n :: "I18NConfig option"
  go_basePath :: string
  go_rewrites :: Rewrites
  go_caseSensitive :: bool

text \<open>
  The bundle \<^verbatim>\<open>getUtils\<close> returns. \<open>handleRewrites\<close> returns the rewrite parameters and
  the parsed URL as it leaves it; \<open>getParamsFromRouteMatches\<close> returns the parameters and
  the \<^verbatim>\<open>opts\<close> record it was given empty; \<open>normalizeVercelUrl\<close> returns the new
  \<^verbatim>\<open>req.url\<close>; \<open>defaultRouteRegex_groups\<close> is the list of the keys of
  \<^verbatim>\<open>defaultRouteRegex.groups\<close>, \<open>None\<close> without a regex.
\<close>

record ServerUtils =
  handleRewrites :: "request \<Rightarrow> parsed_url \<Rightarrow> js_object \<times> parsed_url"
  normalizeDynamicRouteParams :: "js_object \<Rightarrow> bool option \<Rightarrow> ParamsResult"
  dynamicRouteMatcher :: "(string \<Rightarrow> js_object option) option"
  getParamsFromRouteMatches :: "request \<Rightarrow> js_value \<Rightarrow> js_object \<times> (string \<rightharpoonup> string)"
  interpolateDynamicPath :: "string \<Rightarrow> js_object \<Rightarrow> string"
  normalizeVercelUrl :: "request \<Rightarrow> bool \<Rightarrow> string list \<Rightarrow> string"
  defaultRouteMatches :: "js_object option"
  defaultRouteRegex_groups :: "string list option"

text \<open>What \<^verbatim>\<open>parseUrl\<close> returns: the pathname, and the other components of the URL.\<close>

record UrlObject =
  uo_pathname :: "string option"
  uo_rest :: string

text \<open>
  The imported functions, constants and normalizer classes. \<open>normalizeNextQueryParam key\<close>
  is the list of the normalized keys the callback is called with. \<open>URL_pathname u\<close> is
  \<^verbatim>\<open>new URL(u, 'http://localhost').pathname\<close>, \<open>None\<close> when the constructor throws its
  \<^verbatim>\<open>TypeError\<close>; \<open>Buffer_toString_utf8\<close> is \<^verbatim>\<open>buffer.toString('utf8')\<close> on the bytes.
\<close>

record module_imports =
  denormalizePagePath :: "string \<Rightarrow> string"
  isDynamicRoute :: "string \<Rightarrow> bool"
  getUtils :: "getUtils_options \<Rightarrow> ServerUtils"
  normalizeNextQueryParam :: "string \<Rightarrow> string list"
  getHostname :: "parsed_url \<Rightarrow> (string \<rightharpoonup> header_value) \<Rightarrow> string option"
  parseUrl :: "string \<Rightarrow> UrlObject"
  formatUrl :: "UrlObject \<Rightarrow> string"
  stripFlightHeaders :: "(string \<rightharpoonup> header_value) \<Rightarrow> (string \<rightharpoonup> header_value)"
  RSC_HEADER :: string
  NEXT_ROUTER_PREFETCH_HEADER :: string
  checkIsAppPPREnabled :: "ExperimentalPPRConfig \<Rightarrow> bool"
  URL_pathname :: "string \<Rightarrow> string option"
  Buffer_toString_utf8 :: "string \<Rightarrow> string"

record normalizer_classes =
  new_BasePathPathnameNormalizer :: "string \<Rightarrow> PathnameNormalizer"
  new_ActionPathnameNormalizer :: PathnameNormalizer
  new_PostponedPathnameNormalizer :: PathnameNormalizer
  new_RSCPathnameNormalizer :: PathnameNormalizer
  new_PrefetchRSCPathnameNormalizer :: PathnameNormalizer
  new_NextDataPathnameNormalizer :: "string \<Rightarrow> PathnameNormalizer"
  new_I18nPathnameNormalizer :: "I18NProvider \<Rightarrow> PathnameNormalizer"

section \<open>MinimalRequestAdapter\<close>

record Normalizers =
  basePath :: "PathnameNormalizer option"
  action :: "PathnameNormalizer option"
  postponed :: "PathnameNormalizer option"
  rsc :: "PathnameNormalizer option"
  prefetchRSC :: "PathnameNormalizer option"
  data :: "PathnameNormalizer option"
  i18n :: "PathnameNormalizer option"

record MinimalRequestAdapter =
  buildID :: string
  enabledDirectories :: NextEnabledDirectories
  i18nProvider :: "I18NProvider option"
  matchers :: "string \<Rightarrow> LocaleAnalysisResult option \<Rightarrow> RouteMatch option"
  nextConfig :: NextConfig
  getRoutesManifest :: "NormalizedRouteManifest option"
  normalizers :: Normalizers

text \<open>The constructor.\<close>

definition new_MinimalRequestAdapter ::
  "module_imports \<Rightarrow> normalizer_classes \<Rightarrow> string \<Rightarrow> NextEnabledDirectories \<Rightarrow>
   I18NProvider option \<Rightarrow> (string \<Rightarrow> LocaleAnalysisResult option \<Rightarrow> RouteMatch option) \<Rightarrow>
   NextConfig \<Rightarrow> NormalizedRouteManifest option \<Rightarrow> MinimalRequestAdapter" where
  "new_MinimalRequestAdapter M C buildID' enabledDirectories' i18nProvider' matchers' nextConfig'
       getRoutesManifest' =
     (let isAppPPREnabled = checkIsAppPPREnabled M (experimental_ppr nextConfig')
      in \<lparr> buildID = buildID',
           enabledDirectories = enabledDirectories',
           i18nProvider = i18nProvider',
           matchers = matchers',
           nextConfig = nextConfig',
           getRoutesManifest = getRoutesManifest',
           normalizers =
             \<lparr> basePath = (if cfg_basePath nextConfig' \<noteq> []
                            then Some (new_BasePathPathnameNormalizer C (cfg_basePath nextConfig'))
                            else None),
               action = (if app enabledDirectories'
                         then Some (new_ActionPathnameNormalizer C) else None),
               postponed = (if app enabledDirectories' \<and> isAppPPREnabled
                            then Some (new_PostponedPathnameNormalizer C) else None),
               rsc = (if app enabledDirectories' \<and> \<not> isAppPPREnabled
                      then Some (new_RSCPathnameNormalizer C) else None),
               prefetchRSC = (if app enabledDirectories' \<and> isAppPPREnabled
                              then Some (new_PrefetchRSCPathnameNormalizer C) else None),
               data = (if pages enabledDirectories'
                       then Some (new_NextDataPathnameNormalizer C buildID') else None),
               i18n = (case i18nProvider' of
                         Some provider \<Rightarrow> Some (new_I18nPathnameNormalizer C provider)
                       | None \<Rightarrow> None) \<rparr> \<rparr>)"

subsection \<open>normalize\<close>

text \<open>\<^verbatim>\<open>normalizers.push(n)\<close> under \<^verbatim>\<open>if (n)\<close>.\<close>

definition push_if :: "'a option \<Rightarrow> 'a list \<Rightarrow> 'a list" where
  "push_if n ns = (case n of Some x \<Rightarrow> ns @ [x] | None \<Rightarrow> ns)"

fun normalize_loop :: "PathnameNormalizer list \<Rightarrow> string \<Rightarrow> string" where
  "normalize_loop [] pathname' = pathname'"
| "normalize_loop (normalizer # rest) pathname' =
     (if \<not> nz_match normalizer pathname' then normalize_loop rest pathname'
      else nz_normalize normalizer pathname' (Some True))"

definition MinimalRequestAdapter_normalize :: "MinimalRequestAdapter \<Rightarrow> string \<Rightarrow> string" where
  "MinimalRequestAdapter_normalize this pathname' =
     (let ns = [];
          ns = push_if (data (normalizers this)) ns;
          ns = push_if (postponed (normalizers this)) ns;
          ns = push_if (prefetchRSC (normalizers this)) ns;
          ns = push_if (rsc (normalizers this)) ns;
          ns = push_if (action (normalizers this)) ns
      in normalize_loop ns pathname')"

subsection \<open>attachRSCRequestMetadata\<close>

text \<open>\<^verbatim>\<open>n?.match(p)\<close>: the normalizer when it is configured and matches.\<close>

definition matching :: "PathnameNormalizer option \<Rightarrow> string \<Rightarrow> PathnameNormalizer option" where
  "matching n p = (case n of Some x \<Rightarrow> if nz_match x p then Some x else None | None \<Rightarrow> None)"

definition pathname_falsy :: "string option \<Rightarrow> bool" where
  "pathname_falsy p = (p = None \<or> p = Some [])"

definition header_truthy :: "header_value option \<Rightarrow> bool" where
  "header_truthy h =
     (case h of None \<Rightarrow> False | Some (HString s) \<Rightarrow> s \<noteq> [] | Some (HArray _) \<Rightarrow> True)"

text \<open>The end of the method, reached on either match: lines 169 to 177.\<close>

definition rsc_data_request :: "module_imports \<Rightarrow> state \<Rightarrow> state" where
  "rsc_data_request M st =
     (let st1 = st\<lparr>parsedURL := (parsedURL st)
                  \<lparr>query := obj_set (query (parsedURL st)) ''__nextDataReq'' (JString ''1'')\<rparr>\<rparr>
      in if url (req st1) \<noteq> [] then
           (let parsed = parseUrl M (url (req st1));
                parsed = parsed\<lparr>uo_pathname := pathname (parsedURL st1)\<rparr>
            in st1\<lparr>req := (req st1)\<lparr>url := formatUrl M parsed\<rparr>\<rparr>)
         else st1)"

definition attachRSCRequestMetadata ::
  "module_imports \<Rightarrow> MinimalRequestAdapter \<Rightarrow> state \<Rightarrow> outcome" where
  "attachRSCRequestMetadata M this st =
     (case pathname (parsedURL st) of
        None \<Rightarrow> Thrown (Fatal (Error (JString ''Invariant: pathname is required''))) st
      | Some p \<Rightarrow>
          (if p = [] then Thrown (Fatal (Error (JString ''Invariant: pathname is required''))) st
           else if \<not> app (enabledDirectories this) then Returned st
           else
             (case matching (prefetchRSC (normalizers this)) p of
                Some n \<Rightarrow>
                  (let r = (req st)\<lparr>headers := (headers (req st))
                              (toLowerCase (RSC_HEADER M) \<mapsto> HString ''1'',
                               toLowerCase (NEXT_ROUTER_PREFETCH_HEADER M) \<mapsto> HString ''1'')\<rparr>;
                       r = addRequestMeta r ''isRSCRequest'' (JBool True);
                       r = addRequestMeta r ''isPrefetchRSCRequest'' (JBool True)
                   in Returned (rsc_data_request M
                        (st\<lparr>parsedURL := (parsedURL st)\<lparr>pathname := Some (nz_normalize n p (Some True))\<rparr>,
                            req := r\<rparr>)))
              | None \<Rightarrow>
                  (case matching (rsc (normalizers this)) p of
                     Some n \<Rightarrow>
                       (let r = (req st)\<lparr>headers := (headers (req st))
                                   (toLowerCase (RSC_HEADER M) \<mapsto> HString ''1'')\<rparr>;
                            r = addRequestMeta r ''isRSCRequest'' (JBool True)
                        in Returned (rsc_data_request M
                             (st\<lparr>parsedURL := (parsedURL st)\<lparr>pathname := Some (nz_normalize n p (Some True))\<rparr>,
                                 req := r\<rparr>)))
                   | None \<Rightarrow>
                       Returned (st\<lparr>req := (req st)\<lparr>headers := stripFlightHeaders M (headers (req st))\<rparr>\<rparr>)))))"

subsection \<open>adapt, lines 184 to 222: the invariants and the two pathnames\<close>

text \<open>The text a header value is converted to where a string is expected.\<close>

fun join_comma :: "string list \<Rightarrow> string" where
  "join_comma [] = []"
| "join_comma [x] = x"
| "join_comma (x # y # rest) = x @ '','' @ join_comma (y # rest)"

definition header_text :: "header_value option \<Rightarrow> string" where
  "header_text h =
     (case h of None \<Rightarrow> ''undefined'' | Some (HString s) \<Rightarrow> s | Some (HArray xs) \<Rightarrow> join_comma xs)"

text \<open>
  Lines 205 to 213: \<^verbatim>\<open>/index\<close> is normalized when the app directory is enabled. The
  pattern \<^verbatim>\<open>/^\/index($|\?)/\<close> matches a URL that starts with \<^verbatim>\<open>/index\<close>, followed by
  its end or by a question mark.
\<close>

definition index_stage :: "MinimalRequestAdapter \<Rightarrow> state \<Rightarrow> state" where
  "index_stage this st =
     (if app (enabledDirectories this) then
        (let u = url (req st);
             u' = (if startsWith u ''/index'' \<and>
                      (case drop 6 u of [] \<Rightarrow> True | c # _ \<Rightarrow> c = CHR ''?'')
                   then ''/'' @ drop 6 u else u)
         in st\<lparr>req := (req st)\<lparr>url := u'\<rparr>,
               parsedURL := (parsedURL st)
                 \<lparr>pathname := (if pathname (parsedURL st) = Some ''/index'' then Some ''/''
                               else pathname (parsedURL st))\<rparr>\<rparr>)
      else st)"

text \<open>
  The first part of \<^verbatim>\<open>adapt\<close>, through line 222. It throws, or it reaches line 224 with
  the locals \<^verbatim>\<open>i18n\<close>, \<^verbatim>\<open>matchedPath\<close> and \<^verbatim>\<open>urlPathname\<close> and the state.
\<close>

definition adapt_to_url_pathnames ::
  "module_imports \<Rightarrow> MinimalRequestAdapter \<Rightarrow> state \<Rightarrow>
   (exn \<times> state) + (LocaleAnalysisResult option \<times> string \<times> string \<times> state)" where
  "adapt_to_url_pathnames M this st =
     (if \<not> (case headers (req st) ''x-matched-path'' of
               Some (HString s) \<Rightarrow> s \<noteq> []
             | _ \<Rightarrow> False)
      then Inl (Fatal (Error (JString
             ''Invariant: x-matched-path header is not present but we are in minimal mode'')), st)
      else
        (case pathname (parsedURL st) of
           None \<Rightarrow> Inl (Fatal (Error (JString ''Invariant: pathname must be set'')), st)
         | Some p \<Rightarrow>
             (if p = [] then Inl (Fatal (Error (JString ''Invariant: pathname must be set'')), st)
              else
                (let st1 = (case basePath (normalizers this) of
                              Some n \<Rightarrow> st\<lparr>req := (req st)\<lparr>url := nz_normalize n (url (req st)) None\<rparr>\<rparr>
                            | None \<Rightarrow> st);
                     i18n_result = (case i18nProvider this of
                                      Some provider \<Rightarrow> analyze provider p None
                                    | None \<Rightarrow> None)
                 in (case attachRSCRequestMetadata M this st1 of
                       Thrown e st2 \<Rightarrow> Inl (e, st2)
                     | Returned st2 \<Rightarrow>
                         (let st3 = index_stage this st2
                          in (case URL_pathname M (header_text (headers (req st3) ''x-matched-path'')) of
                                None \<Rightarrow> Inl (TypeError, st3)
                              | Some matchedPath \<Rightarrow>
                                  (case URL_pathname M (url (req st3)) of
                                     None \<Rightarrow> Inl (TypeError, st3)
                                   | Some urlPathname \<Rightarrow>
                                       Inr (i18n_result, matchedPath, urlPathname, st3)))))))))"

subsection \<open>adapt, lines 224 to 254: data request marker and postponed state\<close>

text \<open>
  The data request marker, or else the postponed state. Draining the body leaves the
  stream empty. The result is \<^verbatim>\<open>urlPathname\<close> and the state.
\<close>

definition matched_path_stage ::
  "module_imports \<Rightarrow> MinimalRequestAdapter \<Rightarrow> string \<Rightarrow> string \<Rightarrow> state \<Rightarrow> string \<times> state" where
  "matched_path_stage M this matchedPath urlPathname st =
     (case matching (data (normalizers this)) urlPathname of
        Some _ \<Rightarrow>
          (urlPathname,
           st\<lparr>parsedURL := (parsedURL st)
                \<lparr>query := obj_set (query (parsedURL st)) ''__nextDataReq'' (JString ''1'')\<rparr>\<rparr>)
      | None \<Rightarrow>
          (case matching (postponed (normalizers this)) matchedPath of
             Some n \<Rightarrow>
               (if req_method (req st) = ''POST'' then
                  (let postponed' = Buffer_toString_utf8 M (concat (body (req st)));
                       st1 = st\<lparr>req := addRequestMeta ((req st)\<lparr>body := []\<rparr>) ''postponed''
                                        (JString postponed')\<rparr>
                   in if \<not> header_truthy (headers (req st1) ''x-now-route-matches'')
                      then (nz_normalize n matchedPath (Some True), st1)
                      else (urlPathname, st1))
                else (urlPathname, st))
           | None \<Rightarrow> (urlPathname, st)))"

subsection \<open>adapt, lines 256 to 336: locale, route lookup, utilities\<close>

text \<open>Lines 281 to 291: the locale of the analysis goes into the query.\<close>

definition locale_stage :: "LocaleAnalysisResult option \<Rightarrow> state \<Rightarrow> state" where
  "locale_stage localeAnalysisResult st =
     (case localeAnalysisResult of
        None \<Rightarrow> st
      | Some r \<Rightarrow>
          (let q1 = obj_set (query (parsedURL st)) ''__nextLocale''
                      (case detectedLocale r of None \<Rightarrow> JUndefined | Some l \<Rightarrow> JString l);
               q2 = (if inferredFromDefault r
                     then obj_set q1 ''__nextInferredLocaleFromDefault'' (JString ''1'')
                     else obj_delete q1 ''__nextInferredLocaleFromDefault'')
           in st\<lparr>parsedURL := (parsedURL st)\<lparr>query := q2\<rparr>\<rparr>))"

text \<open>
  Lines 296 to 310: the source pathname and whether the page is dynamic; the call of
  \<^verbatim>\<open>matchers.match\<close> is recorded in the state. The result is \<^verbatim>\<open>srcPathname\<close>,
  \<^verbatim>\<open>pageIsDynamic\<close> and the state.
\<close>

definition route_lookup ::
  "module_imports \<Rightarrow> MinimalRequestAdapter \<Rightarrow> string \<Rightarrow> LocaleAnalysisResult option \<Rightarrow> state \<Rightarrow>
   string \<times> bool \<times> state" where
  "route_lookup M this matchedPath localeAnalysisResult st =
     (let srcPathname = matchedPath;
          pageIsDynamic = isDynamicRoute M srcPathname
      in if \<not> pageIsDynamic then
           (let match = matchers this srcPathname localeAnalysisResult;
                st1 = st\<lparr>matcher_queries :=
                           matcher_queries st @ [(srcPathname, localeAnalysisResult)]\<rparr>
            in (case match of
                  Some m \<Rightarrow> (definition_pathname m, rm_params m \<noteq> None, st1)
                | None \<Rightarrow> (srcPathname, pageIsDynamic, st1)))
         else (srcPathname, pageIsDynamic, st))"

definition string_truthy :: "string option \<Rightarrow> bool" where
  "string_truthy s = (case s of None \<Rightarrow> False | Some x \<Rightarrow> x \<noteq> [])"

text \<open>
  Lines 332 to 336: the default locale is put in front of the pathname. The pathname
  is a string here (it was checked at line 193 and only assigned strings since).
\<close>

definition locale_prefix_stage ::
  "string option \<Rightarrow> LocaleAnalysisResult option \<Rightarrow> state \<Rightarrow> state" where
  "locale_prefix_stage defaultLocale i18n_result st =
     (if string_truthy defaultLocale \<and>
         \<not> string_truthy (case i18n_result of None \<Rightarrow> None | Some r \<Rightarrow> detectedLocale r)
      then st\<lparr>parsedURL := (parsedURL st)
                \<lparr>pathname := Some (''/'' @ (case defaultLocale of None \<Rightarrow> [] | Some d \<Rightarrow> d) @
                                   (case pathname (parsedURL st) of
                                      None \<Rightarrow> ''undefined''
                                    | Some p \<Rightarrow> p))\<rparr>\<rparr>
      else st)"

text \<open>The locals of \<^verbatim>\<open>adapt\<close> that are live at line 338.\<close>

record locals =
  l_i18n :: "LocaleAnalysisResult option"
  l_normalizedUrlPath :: string
  l_defaultLocale :: "string option"
  l_localeAnalysisResult :: "LocaleAnalysisResult option"
  l_srcPathname :: string
  l_pageIsDynamic :: bool
  l_matchedPath :: string
  l_utils :: ServerUtils

text \<open>Lines 258 to 264: the URL pathname without its data or locale form.\<close>

definition normalized_url_path :: "MinimalRequestAdapter \<Rightarrow> string \<Rightarrow> string" where
  "normalized_url_path this urlPathname =
     (let normalizedUrlPath = urlPathname;
          normalizedUrlPath = (case data (normalizers this) of
                                 Some n \<Rightarrow> nz_normalize n urlPathname None
                               | None \<Rightarrow> normalizedUrlPath);
          normalizedUrlPath = (case i18n (normalizers this) of
                                 Some n \<Rightarrow> nz_normalize n urlPathname None
                               | None \<Rightarrow> normalizedUrlPath)
      in normalizedUrlPath)"

text \<open>Lines 266 to 271: the default locale of the domain, or else of the configuration.\<close>

definition default_locale ::
  "module_imports \<Rightarrow> MinimalRequestAdapter \<Rightarrow> state \<Rightarrow> string option" where
  "default_locale M this st =
     (let domainLocale = (case i18nProvider this of
                            Some provider \<Rightarrow>
                              detectDomainLocale provider
                                (getHostname M (parsedURL st) (headers (req st)))
                          | None \<Rightarrow> None)
      in case domainLocale of
           Some d \<Rightarrow> Some (dl_defaultLocale d)
         | None \<Rightarrow> map_option config_defaultLocale (i18nProvider this))"

text \<open>Lines 274 to 276: \<^verbatim>\<open>this.i18nProvider?.analyze(matchedPath, { defaultLocale })\<close>.\<close>

definition locale_analysis ::
  "MinimalRequestAdapter \<Rightarrow> string \<Rightarrow> string option \<Rightarrow> LocaleAnalysisResult option" where
  "locale_analysis this matchedPath defaultLocale =
     (case i18nProvider this of
        Some provider \<Rightarrow> analyze provider matchedPath (Some defaultLocale)
      | None \<Rightarrow> None)"

text \<open>Lines 319 to 330: the call of \<^verbatim>\<open>getUtils\<close>.\<close>

definition server_utils ::
  "module_imports \<Rightarrow> MinimalRequestAdapter \<Rightarrow> bool \<Rightarrow> string \<Rightarrow> ServerUtils" where
  "server_utils M this pageIsDynamic srcPathname =
     getUtils M
       \<lparr> go_pageIsDynamic = pageIsDynamic,
         go_page = srcPathname,
         go_i18n = cfg_i18n (nextConfig this),
         go_basePath = cfg_basePath (nextConfig this),
         go_rewrites = (case getRoutesManifest this of
                          Some m \<Rightarrow> mf_rewrites m
                        | None \<Rightarrow> \<lparr>beforeFiles = [], afterFiles = [], fallback = []\<rparr>),
         go_caseSensitive = (experimental_caseSensitiveRoutes (nextConfig this) = Some True) \<rparr>"

text \<open>Lines 256 to 336, on the locals and the state that reach line 256.\<close>

definition adapt_to_rewrites ::
  "module_imports \<Rightarrow> MinimalRequestAdapter \<Rightarrow> LocaleAnalysisResult option \<Rightarrow> string \<Rightarrow> string \<Rightarrow>
   state \<Rightarrow> locals \<times> state" where
  "adapt_to_rewrites M this i18n_result matchedPath0 urlPathname st =
     (let matchedPath1 = MinimalRequestAdapter_normalize this matchedPath0;
          normalizedUrlPath = normalized_url_path this urlPathname;
          defaultLocale = default_locale M this st;
          localeAnalysisResult = locale_analysis this matchedPath1 defaultLocale;
          st1 = locale_stage localeAnalysisResult st;
          matchedPath2 = denormalizePagePath M matchedPath1;
          (srcPathname, pageIsDynamic, st2) =
            route_lookup M this matchedPath2 localeAnalysisResult st1;
          matchedPath3 = (case localeAnalysisResult of
                            Some r \<Rightarrow> la_pathname r
                          | None \<Rightarrow> matchedPath2);
          utils = server_utils M this pageIsDynamic srcPathname;
          st3 = locale_prefix_stage defaultLocale i18n_result st2
      in (\<lparr> l_i18n = i18n_result,
            l_normalizedUrlPath = normalizedUrlPath,
            l_defaultLocale = defaultLocale,
            l_localeAnalysisResult = localeAnalysisResult,
            l_srcPathname = srcPathname,
            l_pageIsDynamic = pageIsDynamic,
            l_matchedPath = matchedPath3,
            l_utils = utils \<rparr>, st3))"

subsection \<open>adapt, lines 338 to 358: rewrites and query keys\<close>

text \<open>
  Lines 338 to 345: the rewrites. The result is \<^verbatim>\<open>rewriteParamKeys\<close>, \<^verbatim>\<open>didRewrite\<close>
  and the state.
\<close>

definition rewrite_stage :: "ServerUtils \<Rightarrow> state \<Rightarrow> string list \<times> bool \<times> state" where
  "rewrite_stage utils st =
     (let pathnameBeforeRewrite = pathname (parsedURL st);
          (rewriteParams, parsedURL') = handleRewrites utils (req st) (parsedURL st);
          st1 = st\<lparr>parsedURL := parsedURL'\<rparr>;
          rewriteParamKeys = Object_keys rewriteParams;
          didRewrite = (pathnameBeforeRewrite \<noteq> pathname (parsedURL st1));
          st2 = (if didRewrite \<and> \<not> pathname_falsy (pathname (parsedURL st1))
                 then st1\<lparr>req := addRequestMeta (req st1) ''rewroteURL''
                                   (pathname_value (pathname (parsedURL st1)))\<rparr>
                 else st1)
      in (rewriteParamKeys, didRewrite, st2))"

text \<open>
  Lines 346 to 358: the loop over the keys the query had at its start. The callback
  stores the value under the normalized key, tracks that key and deletes the original
  one. The pair is the query and \<^verbatim>\<open>routeParamKeys\<close> (a set, kept in insertion order).
\<close>

definition set_add :: "string list \<Rightarrow> string \<Rightarrow> string list" where
  "set_add xs x = (if x \<in> set xs then xs else xs @ [x])"

definition on_key_normalized ::
  "string \<Rightarrow> js_value \<Rightarrow> js_object \<times> string list \<Rightarrow> string \<Rightarrow> js_object \<times> string list" where
  "on_key_normalized key v acc normalizedKey =
     (case acc of (q, routeParamKeys) \<Rightarrow>
        (obj_delete (obj_set q normalizedKey v) key, set_add routeParamKeys normalizedKey))"

fun rename_loop ::
  "module_imports \<Rightarrow> string list \<Rightarrow> js_object \<times> string list \<Rightarrow> js_object \<times> string list" where
  "rename_loop M [] acc = acc"
| "rename_loop M (key # keys) acc =
     (let v = obj_get (fst acc) key
      in rename_loop M keys (foldl (on_key_normalized key v) acc (normalizeNextQueryParam M key)))"

text \<open>
  Lines 338 to 358. The result is \<^verbatim>\<open>rewriteParamKeys\<close>, \<^verbatim>\<open>didRewrite\<close>,
  \<^verbatim>\<open>routeParamKeys\<close> and the state.
\<close>

definition rewrite_and_rename ::
  "module_imports \<Rightarrow> locals \<Rightarrow> state \<Rightarrow> string list \<times> bool \<times> string list \<times> state" where
  "rewrite_and_rename M L st =
     (let (rewriteParamKeys, didRewrite, st1) = rewrite_stage (l_utils L) st;
          (q, routeParamKeys) =
            rename_loop M (Object_keys (query (parsedURL st1))) (query (parsedURL st1), [])
      in (rewriteParamKeys, didRewrite, routeParamKeys,
          st1\<lparr>parsedURL := (parsedURL st1)\<lparr>query := q\<rparr>\<rparr>))"

subsection \<open>adapt, lines 360 to 458: dynamic parameters and the final query\<close>

text \<open>
  Lines 364 to 382: the parameters found in the query, or else matched from the URL
  pathname. The value of \<^verbatim>\<open>utils.normalizeDynamicRouteParams(matcherParams)\<close> at line
  378 is discarded. The \<^verbatim>\<open>Object.assign\<close> of line 379 writes to the \<^verbatim>\<open>params\<close> object
  of the result.
\<close>

definition params_from_query_or_url ::
  "module_imports \<Rightarrow> ServerUtils \<Rightarrow> string \<Rightarrow> bool \<Rightarrow> state \<Rightarrow> ParamsResult" where
  "params_from_query_or_url M utils normalizedUrlPath pageIsDynamic st =
     (let paramsResult = normalizeDynamicRouteParams utils (query (parsedURL st)) None
      in if \<not> hasValidParams paramsResult \<and> pageIsDynamic \<and>
            \<not> isDynamicRoute M normalizedUrlPath
         then
           (case (case dynamicRouteMatcher utils of
                    None \<Rightarrow> None
                  | Some f \<Rightarrow> f normalizedUrlPath) of
              Some matcherParams \<Rightarrow>
                (let (ps, pr) = Object_assign (params paramsResult) (params_prototype paramsResult)
                                  (JObject matcherParams)
                 in \<lparr> hasValidParams = True, params = ps, params_prototype = pr \<rparr>)
            | None \<Rightarrow> paramsResult)
         else paramsResult)"

text \<open>The third argument of the call at line 394: \<^verbatim>\<open>parsedURL.query.__nextLocale || ''\<close>.\<close>

definition route_matches_locale_arg :: "state \<Rightarrow> js_value" where
  "route_matches_locale_arg st =
     (let locale = obj_get (query (parsedURL st)) ''__nextLocale''
      in if truthy locale then locale else JString [])"

text \<open>
  Lines 361 to 431, the body of \<^verbatim>\<open>if (pageIsDynamic)\<close>: the parameters of the dynamic
  route, from the query, from the URL, from the route matches header, or the default
  ones; \<^verbatim>\<open>params\<close> is an object at line 427, so that test passes. The result is
  \<^verbatim>\<open>matchedPath\<close> and the state.
\<close>

definition dynamic_params_stage ::
  "module_imports \<Rightarrow> ServerUtils \<Rightarrow> string \<Rightarrow> string \<Rightarrow> string \<Rightarrow> bool \<Rightarrow> state \<Rightarrow> string \<times> state" where
  "dynamic_params_stage M utils srcPathname normalizedUrlPath matchedPath pageIsDynamic st =
     (let params0 = [];
          paramsResult1 = params_from_query_or_url M utils normalizedUrlPath pageIsDynamic st;
          params1 = (if hasValidParams paramsResult1 then params paramsResult1 else params0);
          (params2, paramsResult2, st1) =
            (if header_truthy (headers (req st) ''x-now-route-matches'') \<and>
                isDynamicRoute M matchedPath \<and> \<not> hasValidParams paramsResult1
             then
               (let (routeParams, opts) =
                      getParamsFromRouteMatches utils (req st) (route_matches_locale_arg st);
                    st' = (if string_truthy (opts ''locale'') then
                             st\<lparr>parsedURL := (parsedURL st)
                                  \<lparr>query := obj_delete
                                     (obj_set (query (parsedURL st)) ''__nextLocale''
                                        (case opts ''locale'' of
                                           None \<Rightarrow> JUndefined
                                         | Some l \<Rightarrow> JString l))
                                     ''__nextInferredLocaleFromDefault''\<rparr>\<rparr>
                           else st);
                    paramsResult' = normalizeDynamicRouteParams utils routeParams (Some True)
                in ((if hasValidParams paramsResult' then params paramsResult' else params1),
                    paramsResult', st'))
             else (params1, paramsResult1, st));
          params3 =
            (case defaultRouteMatches utils of
               Some d \<Rightarrow>
                 (if pageIsDynamic \<and> normalizedUrlPath = srcPathname \<and>
                     \<not> hasValidParams paramsResult2 \<and>
                     \<not> hasValidParams
                         (normalizeDynamicRouteParams utils (own_props (JObject params2)) (Some True))
                  then d else params2)
             | None \<Rightarrow> params2)
      in (interpolateDynamicPath utils srcPathname params3,
          st1\<lparr>req := (req st1)\<lparr>url := interpolateDynamicPath utils (url (req st1)) params3\<rparr>\<rparr>))"

text \<open>Lines 446 to 457: the locale of the URL or the default one, when the query has none.\<close>

definition final_locale_stage ::
  "LocaleAnalysisResult option \<Rightarrow> string option \<Rightarrow> state \<Rightarrow> state" where
  "final_locale_stage i18n_result defaultLocale st =
     (if \<not> truthy (obj_get (query (parsedURL st)) ''__nextLocale'') then
        (case (case i18n_result of None \<Rightarrow> None | Some r \<Rightarrow> detectedLocale r) of
           Some l \<Rightarrow>
             (if l \<noteq> [] then
                st\<lparr>parsedURL := (parsedURL st)
                     \<lparr>query := obj_set (query (parsedURL st)) ''__nextLocale'' (JString l)\<rparr>\<rparr>
              else if string_truthy defaultLocale then
                st\<lparr>parsedURL := (parsedURL st)
                     \<lparr>query := obj_set
                        (obj_set (query (parsedURL st)) ''__nextLocale''
                           (case defaultLocale of None \<Rightarrow> JUndefined | Some d \<Rightarrow> JString d))
                        ''__nextInferredLocaleFromDefault'' (JString ''1'')\<rparr>\<rparr>
              else st)
         | None \<Rightarrow>
             (if string_truthy defaultLocale then
                st\<lparr>parsedURL := (parsedURL st)
                     \<lparr>query := obj_set
                        (obj_set (query (parsedURL st)) ''__nextLocale''
                           (case defaultLocale of None \<Rightarrow> JUndefined | Some d \<Rightarrow> JString d))
                        ''__nextInferredLocaleFromDefault'' (JString ''1'')\<rparr>\<rparr>
              else st))
      else st)"

text \<open>Lines 360 to 458, on the locals and the state that reach line 360.\<close>

definition adapt_from_dynamic_params ::
  "module_imports \<Rightarrow> locals \<Rightarrow> string list \<Rightarrow> bool \<Rightarrow> string list \<Rightarrow> state \<Rightarrow> state" where
  "adapt_from_dynamic_params M L rewriteParamKeys didRewrite routeParamKeys st =
     (let (matchedPath, st1) =
            (if l_pageIsDynamic L
             then dynamic_params_stage M (l_utils L) (l_srcPathname L) (l_normalizedUrlPath L)
                    (l_matchedPath L) (l_pageIsDynamic L) st
             else (l_matchedPath L, st));
          st2 = (if l_pageIsDynamic L \<or> didRewrite
                 then st1\<lparr>req := (req st1)
                        \<lparr>url := normalizeVercelUrl (l_utils L) (req st1) True
                                  (rewriteParamKeys @
                                   (case defaultRouteRegex_groups (l_utils L) of
                                      Some ks \<Rightarrow> ks
                                    | None \<Rightarrow> []))\<rparr>\<rparr>
                 else st1);
          st3 = st2\<lparr>parsedURL := (parsedURL st2)
                       \<lparr>query := foldl obj_delete (query (parsedURL st2)) routeParamKeys,
                        pathname := Some matchedPath\<rparr>\<rparr>
      in final_locale_stage (l_i18n L) (l_defaultLocale L) st3)"

subsection \<open>adapt\<close>

text \<open>\<^verbatim>\<open>MinimalRequestAdapter.adapt\<close>: the five parts in sequence.\<close>

definition MinimalRequestAdapter_adapt ::
  "module_imports \<Rightarrow> MinimalRequestAdapter \<Rightarrow> state \<Rightarrow> outcome" where
  "MinimalRequestAdapter_adapt M this st =
     (case adapt_to_url_pathnames M this st of
        Inl (e, st') \<Rightarrow> Thrown e st'
      | Inr (i18n_result, matchedPath, urlPathname, st1) \<Rightarrow>
          (let (urlPathname', st2) = matched_path_stage M this matchedPath urlPathname st1;
               (L, st3) = adapt_to_rewrites M this i18n_result matchedPath urlPathname' st2;
               (rewriteParamKeys, didRewrite, routeParamKeys, st4) = rewrite_and_rename M L st3
           in Returned (adapt_from_dynamic_params M L rewriteParamKeys didRewrite routeParamKeys st4)))"

section \<open>A sample deployment\<close>

text \<open>
  Concrete collaborators on which the adapters can be run: an instance of the
  interfaces above, in the way the server's own modules fill them (a build id in the
  data paths, suffixes for the fragment and action shapes, the prefixes \<^verbatim>\<open>nxtP\<close> and
  \<^verbatim>\<open>nxtI\<close> for the query keys that stand for route parameters, one dynamic route
  \<^verbatim>\<open>/blog/[slug]\<close>, the locales \<^verbatim>\<open>en\<close> and \<^verbatim>\<open>fr\<close>). The theorems below hold for every
  collaborator; the sample is used for their instances.
\<close>

definition endsWith :: "string \<Rightarrow> string \<Rightarrow> bool" where
  "endsWith s p = (length p \<le> length s \<and> drop (length s - length p) s = p)"

definition suffix_normalizer :: "string \<Rightarrow> PathnameNormalizer" where
  "suffix_normalizer suffix =
     \<lparr> nz_match = (\<lambda>p. endsWith p suffix),
       nz_normalize = (\<lambda>p matched. if matched = Some True \<or> endsWith p suffix
                                     then take (length p - length suffix) p else p) \<rparr>"

definition prefix_normalizer :: "string \<Rightarrow> PathnameNormalizer" where
  "prefix_normalizer prefix =
     \<lparr> nz_match = (\<lambda>p. startsWith p prefix),
       nz_normalize = (\<lambda>p matched. if matched = Some True \<or> startsWith p prefix
                                     then drop (length prefix) p else p) \<rparr>"

definition data_normalizer :: "string \<Rightarrow> PathnameNormalizer" where
  "data_normalizer build =
     \<lparr> nz_match = (\<lambda>p. startsWith p (''/_next/data/'' @ build @ ''/'') \<and> endsWith p ''.json''),
       nz_normalize =
         (\<lambda>p matched.
            if matched = Some True \<or>
               (startsWith p (''/_next/data/'' @ build @ ''/'') \<and> endsWith p ''.json'')
            then take (length p - length (''/_next/data/'' @ build) - 5)
                   (drop (length (''/_next/data/'' @ build)) p)
            else p) \<rparr>"

definition sample_provider :: I18NProvider where
  "sample_provider =
     \<lparr> analyze =
         (\<lambda>p options.
            Some (if startsWith p ''/fr/''
                  then \<lparr> detectedLocale = Some ''fr'', inferredFromDefault = False,
                         la_pathname = drop 3 p \<rparr>
                  else if p = ''/fr''
                  then \<lparr> detectedLocale = Some ''fr'', inferredFromDefault = False,
                         la_pathname = ''/'' \<rparr>
                  else \<lparr> detectedLocale = (case options of Some d \<Rightarrow> d | None \<Rightarrow> None),
                         inferredFromDefault =
                           (case options of Some (Some _) \<Rightarrow> True | _ \<Rightarrow> False),
                         la_pathname = p \<rparr>)),
       detectDomainLocale = (\<lambda>hostname. None),
       config_defaultLocale = ''en'' \<rparr>"

definition sample_classes :: normalizer_classes where
  "sample_classes =
     \<lparr> new_BasePathPathnameNormalizer = prefix_normalizer,
       new_ActionPathnameNormalizer = suffix_normalizer ''.action'',
       new_PostponedPathnameNormalizer = prefix_normalizer ''/_next/postponed/resume'',
       new_RSCPathnameNormalizer = suffix_normalizer ''.rsc'',
       new_PrefetchRSCPathnameNormalizer = suffix_normalizer ''.prefetch.rsc'',
       new_NextDataPathnameNormalizer = data_normalizer,
       new_I18nPathnameNormalizer =
         (\<lambda>provider.
            \<lparr> nz_match = (\<lambda>p. True),
              nz_normalize = (\<lambda>p matched. case analyze provider p None of
                                               Some r \<Rightarrow> la_pathname r
                                             | None \<Rightarrow> p) \<rparr>) \<rparr>"

fun replace_slug :: "string \<Rightarrow> string \<Rightarrow> string" where
  "replace_slug [] v = []"
| "replace_slug (c # cs) v =
     (if startsWith (c # cs) ''[slug]'' then v @ replace_slug (drop 5 cs) v
      else c # replace_slug cs v)"

definition sample_utils :: "getUtils_options \<Rightarrow> ServerUtils" where
  "sample_utils options =
     \<lparr> handleRewrites =
         (\<lambda>r pu.
            case find (\<lambda>rw. Some (rw_source rw) = pathname pu)
                   (beforeFiles (go_rewrites options) @ afterFiles (go_rewrites options) @
                    fallback (go_rewrites options)) of
              Some rw \<Rightarrow> ([], pu\<lparr>pathname := Some (rw_destination rw)\<rparr>)
            | None \<Rightarrow> ([], pu)),
       normalizeDynamicRouteParams =
         (\<lambda>q strict.
            \<lparr> hasValidParams = (go_pageIsDynamic options \<and> truthy (obj_get q ''slug'')),
              params = (if truthy (obj_get q ''slug'') then [(''slug'', obj_get q ''slug'')]
                        else []),
              params_prototype = Object_prototype \<rparr>),
       dynamicRouteMatcher =
         (if go_pageIsDynamic options
          then Some (\<lambda>p. if startsWith p ''/blog/'' \<and> p \<noteq> ''/blog/''
                          then Some [(''slug'', JString (drop 6 p))] else None)
          else None),
       getParamsFromRouteMatches =
         (\<lambda>r locale.
            case headers r ''x-now-route-matches'' of
              Some (HString h) \<Rightarrow>
                (if startsWith h ''fr/''
                 then ([(''slug'', JString (drop 3 h))], [''locale'' \<mapsto> ''fr''])
                 else ([(''slug'', JString h)], Map.empty))
            | _ \<Rightarrow> ([], Map.empty)),
       interpolateDynamicPath =
         (\<lambda>p ps. replace_slug p (case obj_get ps ''slug'' of JString x \<Rightarrow> x | _ \<Rightarrow> ''[slug]'')),
       normalizeVercelUrl = (\<lambda>r keepDynamic keys. url r),
       defaultRouteMatches = None,
       defaultRouteRegex_groups = (if go_pageIsDynamic options then Some [''slug''] else None) \<rparr>"

definition sample_imports :: module_imports where
  "sample_imports =
     \<lparr> denormalizePagePath = (\<lambda>p. p),
       isDynamicRoute = (\<lambda>p. CHR ''['' \<in> set p),
       getUtils = sample_utils,
       normalizeNextQueryParam =
         (\<lambda>k. (if k \<noteq> ''nxtP'' \<and> startsWith k ''nxtP'' then [drop 4 k] else []) @
               (if k \<noteq> ''nxtI'' \<and> startsWith k ''nxtI'' then [drop 4 k] else [])),
       getHostname = (\<lambda>pu hs. None),
       parseUrl = (\<lambda>u. \<lparr> uo_pathname = Some (takeWhile (\<lambda>c. c \<noteq> CHR ''?'') u),
                         uo_rest = dropWhile (\<lambda>c. c \<noteq> CHR ''?'') u \<rparr>),
       formatUrl = (\<lambda>u. (case uo_pathname u of Some p \<Rightarrow> p | None \<Rightarrow> []) @ uo_rest u),
       stripFlightHeaders =
         (\<lambda>hs. hs(''rsc'' := None, ''next-router-state-tree'' := None,
                  ''next-router-prefetch'' := None)),
       RSC_HEADER = ''RSC'',
       NEXT_ROUTER_PREFETCH_HEADER = ''Next-Router-Prefetch'',
       checkIsAppPPREnabled = (\<lambda>c. c = PPR_boolean True \<or> c = PPR_incremental),
       URL_pathname = (\<lambda>u. Some (takeWhile (\<lambda>c. c \<noteq> CHR ''?'' \<and> c \<noteq> CHR ''#'') u)),
       Buffer_toString_utf8 = (\<lambda>bytes. bytes) \<rparr>"

definition sample_matchers :: "string \<Rightarrow> LocaleAnalysisResult option \<Rightarrow> RouteMatch option" where
  "sample_matchers p localeAnalysisResult =
     (if startsWith p ''/blog/''
      then Some \<lparr> definition_pathname = ''/blog/[slug]'',
                  rm_params = Some [(''slug'', JString (drop 6 p))] \<rparr>
      else if p = ''/about'' then Some \<lparr> definition_pathname = ''/about'', rm_params = None \<rparr>
      else None)"

text \<open>
  The adapter of the sample: both directories enabled, build id \<^verbatim>\<open>b1\<close>, no base path;
  the locale provider, the partial prerendering setting and the rewrites are arguments.
\<close>

definition sample_adapter ::
  "I18NProvider option \<Rightarrow> ExperimentalPPRConfig \<Rightarrow> Rewrite list \<Rightarrow> MinimalRequestAdapter" where
  "sample_adapter provider ppr rules =
     new_MinimalRequestAdapter sample_imports sample_classes ''b1''
       \<lparr> app = True, pages = True \<rparr> provider sample_matchers
       \<lparr> cfg_basePath = [], experimental_ppr = ppr, experimental_caseSensitiveRoutes = None,
         cfg_i18n = None \<rparr>
       (Some \<lparr> mf_rewrites = \<lparr> beforeFiles = rules, afterFiles = [], fallback = [] \<rparr> \<rparr>)"

text \<open>A request with the given method, URL, headers and body, and its state.\<close>

definition sample_request ::
  "string \<Rightarrow> string \<Rightarrow> (string \<times> header_value) list \<Rightarrow> string list \<Rightarrow> request" where
  "sample_request m u hs chunks =
     \<lparr> req_method = m, url = u, headers = map_of hs, body = chunks, meta = Map.empty \<rparr>"

definition sample_state :: "request \<Rightarrow> string option \<Rightarrow> js_object \<Rightarrow> state" where
  "sample_state r p q =
     \<lparr> req = r,
       parsedURL = \<lparr> pathname = p, query = q, query_prototype = Object_prototype \<rparr>,
       matcher_queries = [] \<rparr>"

text \<open>The state an outcome carries, and whether the adapter returned.\<close>

fun outcome_state :: "outcome \<Rightarrow> state" where
  "outcome_state (Returned st) = st"
| "outcome_state (Thrown e st) = st"

fun returned :: "outcome \<Rightarrow> bool" where
  "returned (Returned st) = True"
| "returned (Thrown e st) = False"

text \<open>
  Requests of an internal invocation: the status and error headers of a failed
  dispatch, and a state with the pathname \<^verbatim>\<open>/a\<close> and the query \<^verbatim>\<open>x=1&__nextLocale=en\<close>.
\<close>

definition invoke_headers :: "string \<Rightarrow> (string \<times> header_value) list" where
  "invoke_headers cause =
     [(''x-invoke-status'', HString ''500''), (''x-invoke-error'', HString cause)]"

definition invoke_state :: "(string \<times> header_value) list \<Rightarrow> state" where
  "invoke_state hs =
     sample_state (sample_request ''GET'' ''/a?x=1'' hs []) (Some ''/a'')
       [(''x'', JString ''1''), (''__nextLocale'', JString ''en'')]"

text \<open>
  A request of the minimal mode for the URL \<open>u\<close>, carrying the matched path of the
  proxy, with a body of two chunks and an empty query.
\<close>

definition matched_request :: "string \<Rightarrow> string \<Rightarrow> string \<Rightarrow> state" where
  "matched_request m u matched =
     sample_state (sample_request m u [(''x-matched-path'', HString matched)] [''ab'', ''c''])
       (Some u) []"

text \<open>An adapter with both the prefetch-fragment and the plain-fragment normalizers.\<close>

definition both_fragment_shapes :: MinimalRequestAdapter where
  "both_fragment_shapes =
     (sample_adapter None (PPR_boolean True) [])
       \<lparr>normalizers := (normalizers (sample_adapter None (PPR_boolean True) []))
          \<lparr>rsc := Some (suffix_normalizer ''.rsc'')\<rparr>\<rparr>"

text \<open>An adapter whose manifest rewrites \<^verbatim>\<open>/a\<close> to \<^verbatim>\<open>/b\<close>.\<close>

definition rewrite_a_to_b :: MinimalRequestAdapter where
  "rewrite_a_to_b =
     sample_adapter None PPR_undefined [\<lparr> rw_source = ''/a'', rw_destination = ''/b'' \<rparr>]"

text \<open>An adapter whose manifest rewrites \<^verbatim>\<open>/a\<close> to the empty pathname.\<close>

definition rewrite_a_to_empty :: MinimalRequestAdapter where
  "rewrite_a_to_empty =
     sample_adapter None PPR_undefined [\<lparr> rw_source = ''/a'', rw_destination = [] \<rparr>]"

text \<open>An adapter with the locale provider of the sample.\<close>

definition localized :: MinimalRequestAdapter where
  "localized = sample_adapter (Some sample_provider) PPR_undefined []"

text \<open>A request whose URL is also its matched path, with further headers and a query.\<close>

definition localized_request :: "string \<Rightarrow> (string \<times> header_value) list \<Rightarrow> js_object \<Rightarrow> state" where
  "localized_request u hs q =
     sample_state (sample_request ''GET'' u ((''x-matched-path'', HString u) # hs) []) (Some u) q"

section \<open>Properties of InternalRequestAdapter\<close>

lemma set_insert_index: "set (insert_index k xs) = insert k (set xs)"
  by (induction xs) auto

lemma set_foldr_insert_index: "set (foldr insert_index ks []) = set ks"
  by (induction ks) (auto simp: set_insert_index)

lemma set_Object_keys: "set (Object_keys q) = fst ` set q"
  by (auto simp: Object_keys_def Let_def set_foldr_insert_index)

text \<open>The loop over the keys deletes exactly the keys without one of the two prefixes.\<close>

lemma strip_loop_filter:
  "strip_loop keys q =
     filter (\<lambda>(k, v). startsWith k ''__next'' \<or> startsWith k ''_next'' \<or> k \<notin> set keys) q"
proof (induction keys arbitrary: q)
  case Nil
  then show ?case by simp
next
  case (Cons key keys)
  show ?case
    by (auto simp: Cons.IH obj_delete_def intro!: filter_cong)
qed

lemma strip_query_filter:
  "strip_query q = filter (\<lambda>(k, v). startsWith k ''__next'' \<or> startsWith k ''_next'') q"
  unfolding strip_query_def strip_loop_filter
  by (rule filter_cong) (force simp: set_Object_keys)+

lemma Object_assign_undefined: "Object_assign q p JUndefined = (q, p)"
  by (simp add: Object_assign_def own_props_def)

lemma apply_invoke_query_merge:
  assumes "(\<forall>t. h \<noteq> Some (HString t)) \<and> v = JUndefined \<or>
           (\<exists>t d. h = Some (HString t) \<and> decodeURIComponent t = Some d \<and> JSON_parse d = Some v)"
  shows "apply_invoke_query h q p = Inr (Object_assign q p v)"
  using assms
  by (auto simp: apply_invoke_query_def Object_assign_undefined
           split: option.splits header_value.splits)

text \<open>With an invoke path, a query header that can be merged and a status, the adapter throws.\<close>

lemma internal_adapt_status:
  assumes "headers (req st) ''x-invoke-path'' = Some (HString p)" and "p \<noteq> []"
    and "apply_invoke_query (headers (req st) ''x-invoke-query'')
           (strip_query (query (parsedURL st))) (query_prototype (parsedURL st)) = Inr (q', p')"
    and "headers (req st) ''x-invoke-status'' = Some (HString s)"
  shows "InternalRequestAdapter_adapt base_adapt st =
           Thrown (InvokeError (Number_of s)
                     (case headers (req st) ''x-invoke-error'' of
                        Some (HString t) \<Rightarrow> Some (invoke_error_cause t)
                      | _ \<Rightarrow> None) q' p')
                  (st\<lparr>parsedURL := (parsedURL st)\<lparr>query := q', query_prototype := p'\<rparr>\<rparr>)"
  using assms by (simp add: InternalRequestAdapter_adapt_def Let_def)

lemma decode_not_json: "decodeURIComponent ''not json'' = Some ''not json''"
  by code_simp

lemma parse_not_json: "JSON_parse ''not json'' = None"
  by code_simp

text \<open>
  C1, as stated, fails: the status and error headers alone do not make \<^verbatim>\<open>adapt\<close>
  throw. Without an \<^verbatim>\<open>x-invoke-path\<close> header the adapter returns at its first line and
  leaves the state as it was; and with that header, an \<^verbatim>\<open>x-invoke-query\<close> header that
  is not JSON makes \<^verbatim>\<open>JSON.parse\<close> throw its \<^verbatim>\<open>SyntaxError\<close> before the status is read.
\<close>

theorem invoke_error_needs_invoke_path:
  \<open>InternalRequestAdapter_adapt Returned (invoke_state (invoke_headers ''{"message":"boom"}'')) =
     Returned (invoke_state (invoke_headers ''{"message":"boom"}'')) \<and>
   InternalRequestAdapter_adapt Returned
     (invoke_state ((''x-invoke-path'', HString ''/b'') # (''x-invoke-query'', HString ''not json'') #
                    invoke_headers ''{"message":"boom"}'')) =
     Thrown SyntaxError
       ((invoke_state ((''x-invoke-path'', HString ''/b'') #
                       (''x-invoke-query'', HString ''not json'') #
                       invoke_headers ''{"message":"boom"}''))
          \<lparr>parsedURL := \<lparr>pathname = Some ''/a'', query = [(''__nextLocale'', JString ''en'')],
                          query_prototype = Object_prototype\<rparr>\<rparr>)\<close>
  by (simp add: InternalRequestAdapter_adapt_def invoke_state_def invoke_headers_def
        sample_state_def sample_request_def strip_query_filter startsWith_def
        apply_invoke_query_def decode_not_json parse_not_json)

text \<open>
  C1, amended: for every request whose headers contain a non-empty string
  \<^verbatim>\<open>x-invoke-path\<close>, \<^verbatim>\<open>x-invoke-status: "500"\<close> and
  \<^verbatim>\<open>x-invoke-error: '{"message":"boom"}'\<close>, and whose \<^verbatim>\<open>x-invoke-query\<close> header is not a
  string or decodes to JSON, \<^verbatim>\<open>InternalRequestAdapter.adapt\<close> throws an \<^verbatim>\<open>InvokeError\<close> whose
  status code is 500 and whose cause has the message \<^verbatim>\<open>boom\<close>. The base adapter is not
  run (the outcome is the same for every base adapter, and the request and the pathname
  are as they were), and the query at the throw, which the error carries, is the given
  one without the keys that start with neither \<^verbatim>\<open>__next\<close> nor \<^verbatim>\<open>_next\<close>, after
  \<^verbatim>\<open>Object.assign\<close> has merged the decoded \<^verbatim>\<open>x-invoke-query\<close> value \<open>v\<close> into it (\<open>v\<close> is
  \<^verbatim>\<open>undefined\<close> without a string header: nothing is merged).
\<close>

theorem invoke_error_short_circuit:
  assumes path: "headers (req st) ''x-invoke-path'' = Some (HString p)" and "p \<noteq> []"
    and status: "headers (req st) ''x-invoke-status'' = Some (HString ''500'')"
    and cause: \<open>headers (req st) ''x-invoke-error'' = Some (HString ''{"message":"boom"}'')\<close>
    and invoke_query:
      "(\<forall>t. headers (req st) ''x-invoke-query'' \<noteq> Some (HString t)) \<and> v = JUndefined \<or>
       (\<exists>t d. headers (req st) ''x-invoke-query'' = Some (HString t) \<and>
              decodeURIComponent t = Some d \<and> JSON_parse d = Some v)"
    and merged: "Object_assign
                   (filter (\<lambda>(k, v). startsWith k ''__next'' \<or> startsWith k ''_next'')
                      (query (parsedURL st)))
                   (query_prototype (parsedURL st)) v = (q', p')"
  shows "InternalRequestAdapter_adapt base_adapt st =
           Thrown (InvokeError (JsInt 500) (Some (Error (JString ''boom''))) q' p')
                  (st\<lparr>parsedURL := (parsedURL st)\<lparr>query := q', query_prototype := p'\<rparr>\<rparr>) \<and>
         error_message (Error (JString ''boom'')) = Some ''boom''"
proof -
  have c: \<open>invoke_error_cause ''{"message":"boom"}'' = Error (JString ''boom'')\<close>
    by code_simp
  have n: "Number_of ''500'' = JsInt 500"
    by code_simp
  have "apply_invoke_query (headers (req st) ''x-invoke-query'')
          (strip_query (query (parsedURL st))) (query_prototype (parsedURL st)) = Inr (q', p')"
    using apply_invoke_query_merge [OF invoke_query] by (simp add: merged strip_query_filter)
  from internal_adapt_status [OF path \<open>p \<noteq> []\<close> this status, of base_adapt]
  show ?thesis by (simp add: cause c n)
qed

theorem invoke_error_short_circuit_witness:
  \<open>InternalRequestAdapter_adapt Returned
     (invoke_state ((''x-invoke-path'', HString ''/b'') #
                    (''x-invoke-query'', HString ''%7B%22a%22%3A%221%22%7D'') #
                    invoke_headers ''{"message":"boom"}'')) =
   Thrown (InvokeError (JsInt 500) (Some (Error (JString ''boom'')))
             [(''__nextLocale'', JString ''en''), (''a'', JString ''1'')] Object_prototype)
          ((invoke_state ((''x-invoke-path'', HString ''/b'') #
                          (''x-invoke-query'', HString ''%7B%22a%22%3A%221%22%7D'') #
                          invoke_headers ''{"message":"boom"}''))
             \<lparr>parsedURL := \<lparr>pathname = Some ''/a'',
                             query = [(''__nextLocale'', JString ''en''), (''a'', JString ''1'')],
                             query_prototype = Object_prototype\<rparr>\<rparr>) \<and>
   InternalRequestAdapter_adapt Returned
     (invoke_state ((''x-invoke-path'', HString ''/b'') #
                    (''x-invoke-query'',
                     HString ''%7B%22__proto__%22%3A%7B%22a%22%3A1%7D%2C%22b%22%3A%222%22%7D'') #
                    invoke_headers ''{"message":"boom"}'')) =
   Thrown (InvokeError (JsInt 500) (Some (Error (JString ''boom'')))
             [(''__nextLocale'', JString ''en''), (''b'', JString ''2'')]
             (Parsed_prototype (JObject [(''a'', JNumber ''1'')])))
          ((invoke_state ((''x-invoke-path'', HString ''/b'') #
                          (''x-invoke-query'',
                           HString ''%7B%22__proto__%22%3A%7B%22a%22%3A1%7D%2C%22b%22%3A%222%22%7D'') #
                          invoke_headers ''{"message":"boom"}''))
             \<lparr>parsedURL := \<lparr>pathname = Some ''/a'',
                             query = [(''__nextLocale'', JString ''en''), (''b'', JString ''2'')],
                             query_prototype =
                               Parsed_prototype (JObject [(''a'', JNumber ''1'')])\<rparr>\<rparr>) \<and>
   InternalRequestAdapter_adapt Returned
     (invoke_state ((''x-invoke-path'', HString ''/b'') #
                    (''x-invoke-query'', HString ''%22%C3%A9%22'') #
                    invoke_headers ''{"message":"boom"}'')) =
   Thrown (InvokeError (JsInt 500) (Some (Error (JString ''boom'')))
             [(''__nextLocale'', JString ''en''), (''0'', JString [CHR 0xC3, CHR 0xA9])]
             Object_prototype)
          ((invoke_state ((''x-invoke-path'', HString ''/b'') #
                          (''x-invoke-query'', HString ''%22%C3%A9%22'') #
                          invoke_headers ''{"message":"boom"}''))
             \<lparr>parsedURL := \<lparr>pathname = Some ''/a'',
                             query = [(''__nextLocale'', JString ''en''),
                                      (''0'', JString [CHR 0xC3, CHR 0xA9])],
                             query_prototype = Object_prototype\<rparr>\<rparr>)\<close>
  (is "?A \<and> ?B \<and> ?C")
proof -
  have d1: \<open>decodeURIComponent ''%7B%22a%22%3A%221%22%7D'' = Some ''{"a":"1"}''\<close>
    by code_simp
  have j1: \<open>JSON_parse ''{"a":"1"}'' = Some (JObject [(''a'', JString ''1'')])\<close>
    by code_simp
  have a1: "Object_assign
              (filter (\<lambda>(k, v). startsWith k ''__next'' \<or> startsWith k ''_next'')
                 [(''x'', JString ''1''), (''__nextLocale'', JString ''en'')])
              Object_prototype (JObject [(''a'', JString ''1'')]) =
            ([(''__nextLocale'', JString ''en''), (''a'', JString ''1'')], Object_prototype)"
    by code_simp
  have d2: \<open>decodeURIComponent ''%7B%22__proto__%22%3A%7B%22a%22%3A1%7D%2C%22b%22%3A%222%22%7D'' =
              Some ''{"__proto__":{"a":1},"b":"2"}''\<close>
    by code_simp
  have j2: \<open>JSON_parse ''{"__proto__":{"a":1},"b":"2"}'' =
              Some (JObject [(''__proto__'', JObject [(''a'', JNumber ''1'')]),
                             (''b'', JString ''2'')])\<close>
    by code_simp
  have a2: "Object_assign
              (filter (\<lambda>(k, v). startsWith k ''__next'' \<or> startsWith k ''_next'')
                 [(''x'', JString ''1''), (''__nextLocale'', JString ''en'')])
              Object_prototype
              (JObject [(''__proto__'', JObject [(''a'', JNumber ''1'')]), (''b'', JString ''2'')]) =
            ([(''__nextLocale'', JString ''en''), (''b'', JString ''2'')],
             Parsed_prototype (JObject [(''a'', JNumber ''1'')]))"
    by code_simp
  have d3: \<open>decodeURIComponent ''%22%C3%A9%22'' = Some [CHR ''"'', CHR 0xC3, CHR 0xA9, CHR ''"'']\<close>
    by code_simp
  have j3: \<open>JSON_parse [CHR ''"'', CHR 0xC3, CHR 0xA9, CHR ''"''] =
              Some (JString [CHR 0xC3, CHR 0xA9])\<close>
    by code_simp
  have a3: "Object_assign
              (filter (\<lambda>(k, v). startsWith k ''__next'' \<or> startsWith k ''_next'')
                 [(''x'', JString ''1''), (''__nextLocale'', JString ''en'')])
              Object_prototype (JString [CHR 0xC3, CHR 0xA9]) =
            ([(''__nextLocale'', JString ''en''), (''0'', JString [CHR 0xC3, CHR 0xA9])],
             Object_prototype)"
    by code_simp
  have first: ?A
    using invoke_error_short_circuit
      [where st = "invoke_state ((''x-invoke-path'', HString ''/b'') #
                     (''x-invoke-query'', HString ''%7B%22a%22%3A%221%22%7D'') #
                     invoke_headers ''{\"message\":\"boom\"}'')"
         and p = "''/b''" and base_adapt = Returned and v = "JObject [(''a'', JString ''1'')]"]
      d1 j1 a1
    by (simp add: invoke_state_def invoke_headers_def sample_state_def sample_request_def)
  have second: ?B
    using invoke_error_short_circuit
      [where st = "invoke_state ((''x-invoke-path'', HString ''/b'') #
                     (''x-invoke-query'',
                      HString ''%7B%22__proto__%22%3A%7B%22a%22%3A1%7D%2C%22b%22%3A%222%22%7D'') #
                     invoke_headers ''{\"message\":\"boom\"}'')"
         and p = "''/b''" and base_adapt = Returned
         and v = "JObject [(''__proto__'', JObject [(''a'', JNumber ''1'')]), (''b'', JString ''2'')]"]
      d2 j2 a2
    by (simp add: invoke_state_def invoke_headers_def sample_state_def sample_request_def)
  have third: ?C
    using invoke_error_short_circuit
      [where st = "invoke_state ((''x-invoke-path'', HString ''/b'') #
                     (''x-invoke-query'', HString ''%22%C3%A9%22'') #
                     invoke_headers ''{\"message\":\"boom\"}'')"
         and p = "''/b''" and base_adapt = Returned and v = "JString [CHR 0xC3, CHR 0xA9]"]
      d3 j3 a3
    by (simp add: invoke_state_def invoke_headers_def sample_state_def sample_request_def)
  show ?thesis
    by (rule conjI [OF first conjI [OF second third]])
qed

text \<open>
  C8, as stated, fails for the same two reasons: without an \<^verbatim>\<open>x-invoke-path\<close> header
  nothing is thrown, and an \<^verbatim>\<open>x-invoke-query\<close> header that is not JSON is parsed outside
  the \<^verbatim>\<open>try\<close>, so its \<^verbatim>\<open>SyntaxError\<close> propagates.
\<close>

theorem malformed_cause_needs_invoke_path:
  "InternalRequestAdapter_adapt Returned (invoke_state (invoke_headers ''not json'')) =
     Returned (invoke_state (invoke_headers ''not json'')) \<and>
   InternalRequestAdapter_adapt Returned
     (invoke_state ((''x-invoke-path'', HString ''/b'') # (''x-invoke-query'', HString ''not json'') #
                    invoke_headers ''not json'')) =
     Thrown SyntaxError
       ((invoke_state ((''x-invoke-path'', HString ''/b'') #
                       (''x-invoke-query'', HString ''not json'') # invoke_headers ''not json''))
          \<lparr>parsedURL := \<lparr>pathname = Some ''/a'', query = [(''__nextLocale'', JString ''en'')],
                          query_prototype = Object_prototype\<rparr>\<rparr>)"
  by (simp add: InternalRequestAdapter_adapt_def invoke_state_def invoke_headers_def
        sample_state_def sample_request_def strip_query_filter startsWith_def
        apply_invoke_query_def decode_not_json parse_not_json)

text \<open>
  C8, amended: for every request with a non-empty string \<^verbatim>\<open>x-invoke-path\<close> header, a
  string \<^verbatim>\<open>x-invoke-status\<close> header, an \<^verbatim>\<open>x-invoke-query\<close> header that is not a string
  or decodes to JSON, and an \<^verbatim>\<open>x-invoke-error\<close> header whose value is not valid JSON,
  \<^verbatim>\<open>InternalRequestAdapter.adapt\<close> throws an \<^verbatim>\<open>InvokeError\<close> whose cause is an \<^verbatim>\<open>Error\<close>
  with an empty message; the failure of \<^verbatim>\<open>JSON.parse\<close> on the error header does not
  propagate. The error carries the status and the query object of the parsed URL; the
  request and the pathname are as they were.
\<close>

theorem malformed_invoke_error_cause:
  assumes path: "headers (req st) ''x-invoke-path'' = Some (HString p)" and "p \<noteq> []"
    and status: "headers (req st) ''x-invoke-status'' = Some (HString s)"
    and cause: "headers (req st) ''x-invoke-error'' = Some (HString e)"
    and malformed: "JSON_parse e = None"
    and invoke_query:
      "(\<forall>t. headers (req st) ''x-invoke-query'' \<noteq> Some (HString t)) \<or>
       (\<exists>t d v. headers (req st) ''x-invoke-query'' = Some (HString t) \<and>
                decodeURIComponent t = Some d \<and> JSON_parse d = Some v)"
  shows "(\<exists>q pr. InternalRequestAdapter_adapt base_adapt st =
            Thrown (InvokeError (Number_of s) (Some (Error JUndefined)) q pr)
                   (st\<lparr>parsedURL := (parsedURL st)\<lparr>query := q, query_prototype := pr\<rparr>\<rparr>)) \<and>
         error_message (Error JUndefined) = Some []"
proof -
  have c: "invoke_error_cause e = Error JUndefined"
    by (simp add: invoke_error_cause_def malformed)
  from invoke_query obtain v where
    "(\<forall>t. headers (req st) ''x-invoke-query'' \<noteq> Some (HString t)) \<and> v = JUndefined \<or>
     (\<exists>t d. headers (req st) ''x-invoke-query'' = Some (HString t) \<and>
            decodeURIComponent t = Some d \<and> JSON_parse d = Some v)"
    by blast
  then have "apply_invoke_query (headers (req st) ''x-invoke-query'')
               (strip_query (query (parsedURL st))) (query_prototype (parsedURL st)) =
             Inr (Object_assign (strip_query (query (parsedURL st)))
                    (query_prototype (parsedURL st)) v)"
    by (rule apply_invoke_query_merge)
  then obtain q pr where
    "apply_invoke_query (headers (req st) ''x-invoke-query'')
       (strip_query (query (parsedURL st))) (query_prototype (parsedURL st)) = Inr (q, pr)"
    by (cases "Object_assign (strip_query (query (parsedURL st)))
                 (query_prototype (parsedURL st)) v") simp
  from internal_adapt_status [OF path \<open>p \<noteq> []\<close> this status, of base_adapt]
  show ?thesis by (auto simp: cause c)
qed

theorem malformed_invoke_error_cause_witness:
  "(\<exists>q pr. InternalRequestAdapter_adapt Returned
      (invoke_state ((''x-invoke-path'', HString ''/b'') # invoke_headers ''not json'')) =
    Thrown (InvokeError (JsInt 500) (Some (Error JUndefined)) q pr)
      ((invoke_state ((''x-invoke-path'', HString ''/b'') # invoke_headers ''not json''))
         \<lparr>parsedURL := \<lparr>pathname = Some ''/a'', query = q, query_prototype = pr\<rparr>\<rparr>)) \<and>
   error_message (Error JUndefined) = Some []"
proof -
  have n: "Number_of ''500'' = JsInt 500"
    by code_simp
  show ?thesis
    using malformed_invoke_error_cause
      [where st = "invoke_state ((''x-invoke-path'', HString ''/b'') # invoke_headers ''not json'')"
         and p = "''/b''" and s = "''500''" and e = "''not json''" and base_adapt = Returned]
    by (simp add: invoke_state_def invoke_headers_def sample_state_def sample_request_def
          parse_not_json n)
qed

text \<open>
  C10: for every request whose \<^verbatim>\<open>x-invoke-path\<close> header is absent or not a string,
  \<^verbatim>\<open>InternalRequestAdapter.adapt\<close> returns and leaves the whole state (the query, the
  pathname, the request with its metadata) unchanged, whatever the other headers are
  and whatever the base adapter would do.
\<close>

theorem no_invoke_path_no_effect:
  assumes "headers (req st) ''x-invoke-path'' = None \<or>
           (\<exists>xs. headers (req st) ''x-invoke-path'' = Some (HArray xs))"
  shows "InternalRequestAdapter_adapt base_adapt st = Returned st"
  using assms by (auto simp: InternalRequestAdapter_adapt_def)

theorem no_invoke_path_no_effect_witness:
  \<open>InternalRequestAdapter_adapt (Thrown TypeError)
     (invoke_state (invoke_headers ''{"message":"boom"}'')) =
     Returned (invoke_state (invoke_headers ''{"message":"boom"}'')) \<and>
   InternalRequestAdapter_adapt (Thrown TypeError)
     (invoke_state ((''x-invoke-path'', HArray [''/b'', ''/c'']) # invoke_headers ''not json'')) =
     Returned (invoke_state ((''x-invoke-path'', HArray [''/b'', ''/c'']) #
                             invoke_headers ''not json''))\<close>
  using no_invoke_path_no_effect
      [of "invoke_state (invoke_headers ''{\"message\":\"boom\"}'')" "Thrown TypeError"]
    no_invoke_path_no_effect
      [of "invoke_state ((''x-invoke-path'', HArray [''/b'', ''/c'']) # invoke_headers ''not json'')"
          "Thrown TypeError"]
  by (simp add: invoke_state_def invoke_headers_def sample_state_def sample_request_def)

section \<open>Properties of MinimalRequestAdapter\<close>



text \<open>
  C9: \<^verbatim>\<open>MinimalRequestAdapter.adapt\<close> throws a fatal invariant error, an \<^verbatim>\<open>Error\<close> and not
  an \<^verbatim>\<open>InvokeError\<close>, for every request whose \<^verbatim>\<open>x-matched-path\<close> header is absent, not a
  string or empty, and for every request whose parsed pathname is empty (absent or the
  empty string); \<^verbatim>\<open>attachRSCRequestMetadata\<close> throws one when the parsed pathname is
  empty. In each case the state at the throw is the given one: nothing else has run.
\<close>

theorem invariant_violations_are_fatal:
  "(headers (req st) ''x-matched-path'' = None \<or>
    (\<exists>xs. headers (req st) ''x-matched-path'' = Some (HArray xs)) \<or>
    headers (req st) ''x-matched-path'' = Some (HString []) \<longrightarrow>
      MinimalRequestAdapter_adapt M this st =
        Thrown (Fatal (Error (JString
          ''Invariant: x-matched-path header is not present but we are in minimal mode''))) st) \<and>
   (pathname_falsy (pathname (parsedURL st)) \<longrightarrow>
      MinimalRequestAdapter_adapt M this st =
        Thrown (Fatal (Error (JString
          (if header_truthy (headers (req st) ''x-matched-path'') \<and>
              (\<exists>s. headers (req st) ''x-matched-path'' = Some (HString s))
           then ''Invariant: pathname must be set''
           else ''Invariant: x-matched-path header is not present but we are in minimal mode'')))) st) \<and>
   (pathname_falsy (pathname (parsedURL st)) \<longrightarrow>
      attachRSCRequestMetadata M this st =
        Thrown (Fatal (Error (JString ''Invariant: pathname is required''))) st)"
  by (auto simp: MinimalRequestAdapter_adapt_def adapt_to_url_pathnames_def
        attachRSCRequestMetadata_def pathname_falsy_def header_truthy_def
        split: option.splits header_value.splits)

theorem invariant_violations_are_fatal_witness:
  "MinimalRequestAdapter_adapt sample_imports (sample_adapter None PPR_undefined [])
     (sample_state (sample_request ''GET'' ''/about'' [] []) (Some ''/about'') []) =
     Thrown (Fatal (Error (JString
       ''Invariant: x-matched-path header is not present but we are in minimal mode'')))
       (sample_state (sample_request ''GET'' ''/about'' [] []) (Some ''/about'') []) \<and>
   MinimalRequestAdapter_adapt sample_imports (sample_adapter None PPR_undefined [])
     ((matched_request ''GET'' ''/about'' ''/about'')
        \<lparr>parsedURL := \<lparr>pathname = Some [], query = [], query_prototype = Object_prototype\<rparr>\<rparr>) =
     Thrown (Fatal (Error (JString ''Invariant: pathname must be set'')))
       ((matched_request ''GET'' ''/about'' ''/about'')
          \<lparr>parsedURL := \<lparr>pathname = Some [], query = [], query_prototype = Object_prototype\<rparr>\<rparr>) \<and>
   attachRSCRequestMetadata sample_imports (sample_adapter None PPR_undefined [])
     ((matched_request ''GET'' ''/about'' ''/about'')
        \<lparr>parsedURL := \<lparr>pathname = None, query = [], query_prototype = Object_prototype\<rparr>\<rparr>) =
     Thrown (Fatal (Error (JString ''Invariant: pathname is required'')))
       ((matched_request ''GET'' ''/about'' ''/about'')
          \<lparr>parsedURL := \<lparr>pathname = None, query = [], query_prototype = Object_prototype\<rparr>\<rparr>)"
  using invariant_violations_are_fatal
      [of "sample_state (sample_request ''GET'' ''/about'' [] []) (Some ''/about'') []"
          sample_imports "sample_adapter None PPR_undefined []"]
    invariant_violations_are_fatal
      [of "(matched_request ''GET'' ''/about'' ''/about'')
             \<lparr>parsedURL := \<lparr>pathname = Some [], query = [], query_prototype = Object_prototype\<rparr>\<rparr>"
          sample_imports "sample_adapter None PPR_undefined []"]
    invariant_violations_are_fatal
      [of "(matched_request ''GET'' ''/about'' ''/about'')
             \<lparr>parsedURL := \<lparr>pathname = None, query = [], query_prototype = Object_prototype\<rparr>\<rparr>"
          sample_imports "sample_adapter None PPR_undefined []"]
  by (simp add: matched_request_def sample_state_def sample_request_def pathname_falsy_def
        header_truthy_def)

text \<open>
  C4: for every pathname, \<^verbatim>\<open>normalize\<close> applies the normalizer of the first shape that
  is configured and matches, in the order data, postponed, prefetch fragment, fragment,
  action, whatever the later shapes do (so the prefetch fragment wins over the plain
  fragment), and returns a pathname that no shape matches unchanged.
\<close>

theorem normalize_first_match:
  "MinimalRequestAdapter_normalize this p =
     (case matching (data (normalizers this)) p of
        Some n \<Rightarrow> nz_normalize n p (Some True)
      | None \<Rightarrow>
          (case matching (postponed (normalizers this)) p of
             Some n \<Rightarrow> nz_normalize n p (Some True)
           | None \<Rightarrow>
               (case matching (prefetchRSC (normalizers this)) p of
                  Some n \<Rightarrow> nz_normalize n p (Some True)
                | None \<Rightarrow>
                    (case matching (rsc (normalizers this)) p of
                       Some n \<Rightarrow> nz_normalize n p (Some True)
                     | None \<Rightarrow>
                         (case matching (action (normalizers this)) p of
                            Some n \<Rightarrow> nz_normalize n p (Some True)
                          | None \<Rightarrow> p))))) \<and>
   (matching (data (normalizers this)) p = None \<and>
    matching (postponed (normalizers this)) p = None \<and>
    matching (prefetchRSC (normalizers this)) p = Some prefetch \<longrightarrow>
      MinimalRequestAdapter_normalize this p = nz_normalize prefetch p (Some True))"
proof -
  have first_match:
    "MinimalRequestAdapter_normalize this p =
       (case matching (data (normalizers this)) p of
          Some n \<Rightarrow> nz_normalize n p (Some True)
        | None \<Rightarrow>
            (case matching (postponed (normalizers this)) p of
               Some n \<Rightarrow> nz_normalize n p (Some True)
             | None \<Rightarrow>
                 (case matching (prefetchRSC (normalizers this)) p of
                    Some n \<Rightarrow> nz_normalize n p (Some True)
                  | None \<Rightarrow>
                      (case matching (rsc (normalizers this)) p of
                         Some n \<Rightarrow> nz_normalize n p (Some True)
                       | None \<Rightarrow>
                           (case matching (action (normalizers this)) p of
                              Some n \<Rightarrow> nz_normalize n p (Some True)
                            | None \<Rightarrow> p)))))"
    by (simp add: MinimalRequestAdapter_normalize_def push_if_def matching_def
          split: option.splits)
  show ?thesis
    by (simp add: first_match)
qed


theorem normalize_first_match_witness:
  "matching (rsc (normalizers both_fragment_shapes)) ''/foo.prefetch.rsc'' \<noteq> None \<and>
   MinimalRequestAdapter_normalize both_fragment_shapes ''/foo.prefetch.rsc'' = ''/foo'' \<and>
   MinimalRequestAdapter_normalize both_fragment_shapes ''/plain'' = ''/plain''"
proof -
  have m: "matching (data (normalizers both_fragment_shapes)) ''/foo.prefetch.rsc'' = None \<and>
           matching (postponed (normalizers both_fragment_shapes)) ''/foo.prefetch.rsc'' = None \<and>
           matching (prefetchRSC (normalizers both_fragment_shapes)) ''/foo.prefetch.rsc'' =
             Some (suffix_normalizer ''.prefetch.rsc'') \<and>
           matching (rsc (normalizers both_fragment_shapes)) ''/foo.prefetch.rsc'' \<noteq> None"
    by (simp add: both_fragment_shapes_def sample_adapter_def new_MinimalRequestAdapter_def
          sample_imports_def sample_classes_def matching_def data_normalizer_def
          prefix_normalizer_def suffix_normalizer_def startsWith_def endsWith_def)
  have p: "matching (data (normalizers both_fragment_shapes)) ''/plain'' = None \<and>
           matching (postponed (normalizers both_fragment_shapes)) ''/plain'' = None \<and>
           matching (prefetchRSC (normalizers both_fragment_shapes)) ''/plain'' = None \<and>
           matching (rsc (normalizers both_fragment_shapes)) ''/plain'' = None \<and>
           matching (action (normalizers both_fragment_shapes)) ''/plain'' = None"
    by (simp add: both_fragment_shapes_def sample_adapter_def new_MinimalRequestAdapter_def
          sample_imports_def sample_classes_def matching_def data_normalizer_def
          prefix_normalizer_def suffix_normalizer_def startsWith_def endsWith_def)
  show ?thesis
    using normalize_first_match
        [of both_fragment_shapes "''/foo.prefetch.rsc''" "suffix_normalizer ''.prefetch.rsc''"]
      normalize_first_match [of both_fragment_shapes "''/plain''"] m p
    by (simp add: suffix_normalizer_def)
qed




section \<open>Objects as maps\<close>

lemma map_of_obj_set: "map_of (obj_set q a v) = (map_of q)(a \<mapsto> v)"
  by (induction q a v rule: obj_set.induct) (auto simp: fun_eq_iff)

lemma map_of_obj_delete: "map_of (obj_delete q a) = (map_of q)(a := None)"
  by (induction q) (auto simp: obj_delete_def fun_eq_iff)

lemma map_of_foldl_obj_delete:
  "map_of (foldl obj_delete q ks) k = (if k \<in> set ks then None else map_of q k)"
  by (induction ks arbitrary: q) (auto simp: map_of_obj_delete)

lemma obj_get_map_of: "map_of q k = Some v \<Longrightarrow> obj_get q k = v"
  by (simp add: obj_get_def)

section \<open>What each part of adapt leaves unchanged\<close>

lemma attachRSC_frame:
  assumes "attachRSCRequestMetadata M this st = Returned st'"
  shows "matcher_queries st' = matcher_queries st \<and> req_method (req st') = req_method (req st) \<and>
         body (req st') = body (req st) \<and>
         meta (req st') ''postponed'' = meta (req st) ''postponed'' \<and>
         meta (req st') ''rewroteURL'' = meta (req st) ''rewroteURL''"
  using assms
  by (auto simp: attachRSCRequestMetadata_def rsc_data_request_def addRequestMeta_def Let_def
           split: option.splits if_splits)

lemma index_stage_frame:
  "matcher_queries (index_stage this st) = matcher_queries st \<and>
   req_method (req (index_stage this st)) = req_method (req st) \<and>
   body (req (index_stage this st)) = body (req st) \<and>
   meta (req (index_stage this st)) = meta (req st) \<and>
   headers (req (index_stage this st)) = headers (req st) \<and>
   query (parsedURL (index_stage this st)) = query (parsedURL st)"
  by (simp add: index_stage_def Let_def)

lemma adapt_to_url_pathnames_frame:
  assumes "adapt_to_url_pathnames M this st = Inr (i, mp, up, st')"
  shows "matcher_queries st' = matcher_queries st \<and> req_method (req st') = req_method (req st) \<and>
         body (req st') = body (req st) \<and>
         meta (req st') ''postponed'' = meta (req st) ''postponed'' \<and>
         meta (req st') ''rewroteURL'' = meta (req st) ''rewroteURL''"
proof -
  from assms obtain st1 st2 where
    a: "attachRSCRequestMetadata M this st1 = Returned st2" and
    s1: "matcher_queries st1 = matcher_queries st" "req_method (req st1) = req_method (req st)"
        "body (req st1) = body (req st)" "meta (req st1) = meta (req st)" and
    s': "st' = index_stage this st2"
    by (auto simp: adapt_to_url_pathnames_def Let_def
             split: option.splits if_splits outcome.splits header_value.splits)
  from attachRSC_frame [OF a] s1 show ?thesis
    by (simp add: s' index_stage_frame)
qed

lemma matched_path_stage_frame:
  "matcher_queries (snd (matched_path_stage M this mp up st)) = matcher_queries st \<and>
   meta (req (snd (matched_path_stage M this mp up st))) ''rewroteURL'' = meta (req st) ''rewroteURL''"
  by (simp add: matched_path_stage_def addRequestMeta_def Let_def split: option.splits)

lemma locale_stage_frame:
  "req (locale_stage lar st) = req st \<and> matcher_queries (locale_stage lar st) = matcher_queries st \<and>
   pathname (parsedURL (locale_stage lar st)) = pathname (parsedURL st)"
  by (simp add: locale_stage_def Let_def split: option.splits)

lemma locale_prefix_stage_frame:
  "req (locale_prefix_stage d i st) = req st \<and>
   matcher_queries (locale_prefix_stage d i st) = matcher_queries st \<and>
   query (parsedURL (locale_prefix_stage d i st)) = query (parsedURL st)"
  by (simp add: locale_prefix_stage_def)

lemma route_lookup_eq:
  "route_lookup M this mp lar st =
     (if isDynamicRoute M mp then (mp, True, st)
      else (case matchers this mp lar of
              Some m \<Rightarrow> (definition_pathname m, rm_params m \<noteq> None,
                         st\<lparr>matcher_queries := matcher_queries st @ [(mp, lar)]\<rparr>)
            | None \<Rightarrow> (mp, False, st\<lparr>matcher_queries := matcher_queries st @ [(mp, lar)]\<rparr>)))"
  by (simp add: route_lookup_def Let_def split: option.splits)

lemma route_lookup_frame:
  "req (snd (snd (route_lookup M this mp lar st))) = req st \<and>
   parsedURL (snd (snd (route_lookup M this mp lar st))) = parsedURL st"
  by (simp add: route_lookup_eq split: option.splits)

lemma adapt_to_rewrites_frame:
  assumes "adapt_to_rewrites M this i mp0 up st = (L, st')"
  shows "req st' = req st \<and>
         query (parsedURL st') =
           query (parsedURL (locale_stage (l_localeAnalysisResult L) st)) \<and>
         l_i18n L = i \<and>
         l_defaultLocale L = default_locale M this st \<and>
         l_localeAnalysisResult L =
           locale_analysis this (MinimalRequestAdapter_normalize this mp0) (default_locale M this st)"
  using assms
  by (auto simp: adapt_to_rewrites_def Let_def split_beta locale_prefix_stage_frame
        route_lookup_frame locale_stage_frame)

lemma adapt_to_rewrites_lookup:
  assumes "adapt_to_rewrites M this i mp0 up st = (L, st')"
    and "mp = denormalizePagePath M (MinimalRequestAdapter_normalize this mp0)"
  shows "(l_srcPathname L, l_pageIsDynamic L, matcher_queries st') =
           (case route_lookup M this mp (l_localeAnalysisResult L) st of
              (s, d, st'') \<Rightarrow> (s, d, matcher_queries st''))"
  using assms
  apply (simp add: adapt_to_rewrites_def Let_def split_beta)
  apply (auto simp: locale_prefix_stage_frame route_lookup_eq locale_stage_frame split: option.splits)
  done

lemma rewrite_stage_frame:
  "matcher_queries (snd (snd (rewrite_stage u st))) = matcher_queries st \<and>
   req_method (req (snd (snd (rewrite_stage u st)))) = req_method (req st) \<and>
   url (req (snd (snd (rewrite_stage u st)))) = url (req st) \<and>
   headers (req (snd (snd (rewrite_stage u st)))) = headers (req st) \<and>
   body (req (snd (snd (rewrite_stage u st)))) = body (req st) \<and>
   parsedURL (snd (snd (rewrite_stage u st))) = snd (handleRewrites u (req st) (parsedURL st)) \<and>
   (\<forall>k. k \<noteq> ''rewroteURL'' \<longrightarrow>
      meta (req (snd (snd (rewrite_stage u st)))) k = meta (req st) k)"
  by (simp add: rewrite_stage_def addRequestMeta_def Let_def split_beta)

lemma rewrite_stage_meta:
  "meta (req (snd (snd (rewrite_stage u st)))) ''rewroteURL'' =
     (let p' = pathname (snd (handleRewrites u (req st) (parsedURL st)))
      in if p' \<noteq> pathname (parsedURL st) \<and> \<not> pathname_falsy p'
         then Some (pathname_value p') else meta (req st) ''rewroteURL'')"
  by (simp add: rewrite_stage_def addRequestMeta_def Let_def split_beta)

lemma rewrite_and_rename_frame:
  assumes "rewrite_and_rename M L st = (rpk, did, keys, st')"
  shows "matcher_queries st' = matcher_queries st \<and>
         req st' = req (snd (snd (rewrite_stage (l_utils L) st))) \<and>
         pathname (parsedURL st') = pathname (snd (handleRewrites (l_utils L) (req st) (parsedURL st)))"
  using assms rewrite_stage_frame [of "l_utils L" st]
  by (auto simp: rewrite_and_rename_def Let_def split_beta)

lemma dynamic_params_stage_frame:
  "matcher_queries (snd (dynamic_params_stage M u s n m d st)) = matcher_queries st \<and>
   meta (req (snd (dynamic_params_stage M u s n m d st))) = meta (req st)"
  by (simp add: dynamic_params_stage_def Let_def split_beta)

lemma final_locale_stage_frame:
  "req (final_locale_stage i d st) = req st \<and>
   matcher_queries (final_locale_stage i d st) = matcher_queries st \<and>
   pathname (parsedURL (final_locale_stage i d st)) = pathname (parsedURL st)"
  by (simp add: final_locale_stage_def split: option.splits)

lemma adapt_from_dynamic_params_frame:
  "matcher_queries (adapt_from_dynamic_params M L rpk did keys st) = matcher_queries st \<and>
   meta (req (adapt_from_dynamic_params M L rpk did keys st)) = meta (req st)"
  by (simp add: adapt_from_dynamic_params_def Let_def split_beta final_locale_stage_frame
        dynamic_params_stage_frame)

text \<open>When the first part reaches line 224, adapt returns the state of its last part.\<close>

lemma adapt_returns:
  assumes "adapt_to_url_pathnames M this st = Inr (i, mp, up, st1)"
    and "matched_path_stage M this mp up st1 = (up', st2)"
    and "adapt_to_rewrites M this i mp up' st2 = (L, st3)"
    and "rewrite_and_rename M L st3 = (rpk, did, keys, st4)"
  shows "MinimalRequestAdapter_adapt M this st =
           Returned (adapt_from_dynamic_params M L rpk did keys st4)"
  using assms by (simp add: MinimalRequestAdapter_adapt_def)




text \<open>
  C2, as stated, fails: the lookup is guarded by \<^verbatim>\<open>if (!pageIsDynamic)\<close>. For the matched
  path \<^verbatim>\<open>/about\<close>, which has no dynamic segment, the route matcher is queried; for the
  matched path \<^verbatim>\<open>/blog/[slug]\<close>, which has one, it is not.
\<close>

theorem route_matcher_queried_for_static_path:
  "\<not> isDynamicRoute sample_imports ''/about'' \<and>
   matcher_queries (outcome_state (MinimalRequestAdapter_adapt sample_imports
     (sample_adapter None PPR_undefined []) (matched_request ''GET'' ''/about'' ''/about''))) =
     [(''/about'', None)] \<and>
   isDynamicRoute sample_imports ''/blog/[slug]'' \<and>
   matcher_queries (outcome_state (MinimalRequestAdapter_adapt sample_imports
     (sample_adapter None PPR_undefined [])
     (matched_request ''GET'' ''/blog/hello-world'' ''/blog/[slug]''))) = []"
  by code_simp

text \<open>
  C2, amended: in \<^verbatim>\<open>MinimalRequestAdapter.adapt\<close>, for every matched path whose
  denormalized source pathname \<open>mp\<close> has dynamic segments, no route-matcher lookup occurs
  (the source pathname stays \<open>mp\<close> and the page is dynamic); for every matched path whose
  source pathname has none, the route matcher is queried once, with \<open>mp\<close> and the locale
  analysis result, and on a match the source pathname is the match's definition pathname
  and the page is dynamic exactly when the match carries parameters (without a match the
  source pathname stays \<open>mp\<close> and the page is not dynamic).
\<close>

theorem route_lookup_for_static_paths:
  assumes seg1: "adapt_to_url_pathnames M this st = Inr (i, mp0, up, st1)"
    and seg2: "matched_path_stage M this mp0 up st1 = (up', st2)"
    and seg3: "adapt_to_rewrites M this i mp0 up' st2 = (L, st3)"
    and mp: "mp = denormalizePagePath M (MinimalRequestAdapter_normalize this mp0)"
    and final: "final = outcome_state (MinimalRequestAdapter_adapt M this st)"
  shows "returned (MinimalRequestAdapter_adapt M this st) \<and>
    (isDynamicRoute M mp \<longrightarrow>
       matcher_queries final = matcher_queries st \<and> l_srcPathname L = mp \<and> l_pageIsDynamic L) \<and>
    (\<not> isDynamicRoute M mp \<longrightarrow>
       matcher_queries final = matcher_queries st @ [(mp, l_localeAnalysisResult L)] \<and>
       (case matchers this mp (l_localeAnalysisResult L) of
          Some m \<Rightarrow> l_srcPathname L = definition_pathname m \<and>
                    l_pageIsDynamic L = (rm_params m \<noteq> None)
        | None \<Rightarrow> l_srcPathname L = mp \<and> \<not> l_pageIsDynamic L))"
proof -
  obtain rpk did keys st4 where seg4: "rewrite_and_rename M L st3 = (rpk, did, keys, st4)"
    by (cases "rewrite_and_rename M L st3") auto
  have ret: "MinimalRequestAdapter_adapt M this st =
               Returned (adapt_from_dynamic_params M L rpk did keys st4)"
    by (rule adapt_returns [OF seg1 seg2 seg3 seg4])
  have q: "matcher_queries final = matcher_queries st3"
    using rewrite_and_rename_frame [OF seg4]
    by (simp add: final ret adapt_from_dynamic_params_frame)
  have q2: "matcher_queries st2 = matcher_queries st"
    using adapt_to_url_pathnames_frame [OF seg1] matched_path_stage_frame [of M this mp0 up st1]
    by (simp add: seg2)
  from adapt_to_rewrites_lookup [OF seg3 mp] show ?thesis
    by (auto simp: ret q q2 route_lookup_eq split: option.splits if_splits)
qed

theorem route_lookup_for_static_paths_witness:
  "returned (MinimalRequestAdapter_adapt sample_imports (sample_adapter None PPR_undefined [])
     (matched_request ''GET'' ''/blog/hello-world'' ''/blog/hello-world'')) \<and>
   matcher_queries (outcome_state (MinimalRequestAdapter_adapt sample_imports
     (sample_adapter None PPR_undefined [])
     (matched_request ''GET'' ''/blog/hello-world'' ''/blog/hello-world''))) =
     [(''/blog/hello-world'', None)]"
proof -
  let ?A = "sample_adapter None PPR_undefined []"
  let ?S = "matched_request ''GET'' ''/blog/hello-world'' ''/blog/hello-world''"
  have "case adapt_to_url_pathnames sample_imports ?A ?S of
          Inl e \<Rightarrow> False
        | Inr (i, mp0, up, st1) \<Rightarrow> mp0 = ''/blog/hello-world''"
    by code_simp
  then obtain i up st1 where
    seg1: "adapt_to_url_pathnames sample_imports ?A ?S = Inr (i, ''/blog/hello-world'', up, st1)"
    by (auto split: sum.splits)
  obtain up' st2 where
    seg2: "matched_path_stage sample_imports ?A ''/blog/hello-world'' up st1 = (up', st2)"
    by (cases "matched_path_stage sample_imports ?A ''/blog/hello-world'' up st1") auto
  obtain L st3 where
    seg3: "adapt_to_rewrites sample_imports ?A i ''/blog/hello-world'' up' st2 = (L, st3)"
    by (cases "adapt_to_rewrites sample_imports ?A i ''/blog/hello-world'' up' st2") auto
  have lar: "l_localeAnalysisResult L = None"
    using adapt_to_rewrites_frame [OF seg3]
    by (simp add: locale_analysis_def sample_adapter_def new_MinimalRequestAdapter_def Let_def)
  have mp: "''/blog/hello-world'' =
              denormalizePagePath sample_imports
                (MinimalRequestAdapter_normalize ?A ''/blog/hello-world'')"
    by code_simp
  have static: "\<not> isDynamicRoute sample_imports ''/blog/hello-world''"
    by code_simp
  from route_lookup_for_static_paths [OF seg1 seg2 seg3 mp refl] lar static
  show ?thesis
    by (simp add: matched_request_def sample_state_def)
qed

section \<open>The query through the parts of adapt\<close>

lemma matched_path_stage_data:
  assumes "matching (data (normalizers this)) up = Some n"
  shows "matched_path_stage M this mp up st =
           (up, st\<lparr>parsedURL := (parsedURL st)
                  \<lparr>query := obj_set (query (parsedURL st)) ''__nextDataReq'' (JString ''1'')\<rparr>\<rparr>)"
  using assms by (simp add: matched_path_stage_def)

lemma matched_path_stage_postponed:
  assumes "matching (data (normalizers this)) up = None"
    and "matching (postponed (normalizers this)) mp = Some n"
    and "req_method (req st) = ''POST''"
  shows "matched_path_stage M this mp up st =
           (if header_truthy (headers (req st) ''x-now-route-matches'') then up
            else nz_normalize n mp (Some True),
            st\<lparr>req := addRequestMeta ((req st)\<lparr>body := []\<rparr>) ''postponed''
                        (JString (Buffer_toString_utf8 M (concat (body (req st)))))\<rparr>)"
  using assms by (simp add: matched_path_stage_def Let_def addRequestMeta_def)

lemma locale_stage_other_key:
  assumes "k \<noteq> ''__nextLocale''" and "k \<noteq> ''__nextInferredLocaleFromDefault''"
  shows "map_of (query (parsedURL (locale_stage lar st))) k = map_of (query (parsedURL st)) k"
  using assms
  by (simp add: locale_stage_def Let_def map_of_obj_set map_of_obj_delete split: option.splits)

lemma foldl_on_key_normalized_keeps:
  assumes "k \<notin> set nks" and "nks = [] \<or> key \<noteq> k"
  shows "map_of (fst (foldl (on_key_normalized key v) (q, r) nks)) k = map_of q k \<and>
         (k \<in> set (snd (foldl (on_key_normalized key v) (q, r) nks)) \<longleftrightarrow> k \<in> set r)"
  using assms
proof (induction nks arbitrary: q r)
  case Nil
  then show ?case by simp
next
  case (Cons nk nks)
  from Cons.prems have "k \<noteq> nk" "k \<notin> set nks" "key \<noteq> k" by auto
  with Cons.IH [of "obj_delete (obj_set q nk v) key" "set_add r nk"] show ?case
    by (auto simp: on_key_normalized_def map_of_obj_set map_of_obj_delete set_add_def)
qed

lemma rename_loop_keeps:
  assumes "\<forall>key \<in> set keys. k \<notin> set (normalizeNextQueryParam M key)"
    and "normalizeNextQueryParam M k = []"
  shows "map_of (fst (rename_loop M keys (q, r))) k = map_of q k \<and>
         (k \<in> set (snd (rename_loop M keys (q, r))) \<longleftrightarrow> k \<in> set r)"
  using assms
proof (induction keys arbitrary: q r)
  case Nil
  then show ?case by simp
next
  case (Cons key keys)
  let ?acc = "foldl (on_key_normalized key (obj_get q key)) (q, r) (normalizeNextQueryParam M key)"
  have step: "map_of (fst ?acc) k = map_of q k \<and> (k \<in> set (snd ?acc) \<longleftrightarrow> k \<in> set r)"
    using Cons.prems by (intro foldl_on_key_normalized_keeps) auto
  obtain q' r' where acc: "?acc = (q', r')" by (cases ?acc) auto
  from Cons.IH [of q' r'] Cons.prems step show ?case
    by (simp add: acc Let_def)
qed

lemma rewrite_and_rename_keeps:
  assumes seg: "rewrite_and_rename M L st = (rpk, did, keys, st')"
    and rw: "handleRewrites (l_utils L) (req st) (parsedURL st) = (rp, pu')"
    and no_synonym: "\<forall>key \<in> fst ` set (query pu'). k \<notin> set (normalizeNextQueryParam M key)"
    and not_renamed: "normalizeNextQueryParam M k = []"
  shows "map_of (query (parsedURL st')) k = map_of (query pu') k \<and> k \<notin> set keys"
proof -
  have pu: "parsedURL (snd (snd (rewrite_stage (l_utils L) st))) = pu'"
    using rewrite_stage_frame [of "l_utils L" st] by (simp add: rw)
  from seg have
    "st' = (snd (snd (rewrite_stage (l_utils L) st)))
             \<lparr>parsedURL := pu'\<lparr>query := fst (rename_loop M (Object_keys (query pu')) (query pu', []))\<rparr>\<rparr>"
    and "keys = snd (rename_loop M (Object_keys (query pu')) (query pu', []))"
    by (auto simp: rewrite_and_rename_def Let_def split_beta pu)
  with rename_loop_keeps [of "Object_keys (query pu')" k M "query pu'" "[]"] no_synonym not_renamed
  show ?thesis
    by (simp add: set_Object_keys)
qed

lemma dynamic_params_stage_query:
  "query (parsedURL (snd (dynamic_params_stage M u s n m d st))) =
     (if header_truthy (headers (req st) ''x-now-route-matches'') \<and> isDynamicRoute M m \<and>
         \<not> hasValidParams (params_from_query_or_url M u n d st) \<and>
         string_truthy (snd (getParamsFromRouteMatches u (req st) (route_matches_locale_arg st))
                          ''locale'')
      then obj_delete
             (obj_set (query (parsedURL st)) ''__nextLocale''
                (case snd (getParamsFromRouteMatches u (req st) (route_matches_locale_arg st))
                        ''locale'' of
                   None \<Rightarrow> JUndefined
                 | Some l \<Rightarrow> JString l))
             ''__nextInferredLocaleFromDefault''
      else query (parsedURL st))"
  by (simp add: dynamic_params_stage_def Let_def split_beta)

lemma final_locale_stage_other_key:
  assumes "k \<noteq> ''__nextLocale''" and "k \<noteq> ''__nextInferredLocaleFromDefault''"
  shows "map_of (query (parsedURL (final_locale_stage i d st))) k = map_of (query (parsedURL st)) k"
  using assms
  by (simp add: final_locale_stage_def map_of_obj_set split: option.splits)

lemma final_locale_stage_truthy:
  assumes "truthy (obj_get (query (parsedURL st)) ''__nextLocale'')"
  shows "final_locale_stage i d st = st"
  using assms by (simp add: final_locale_stage_def)

lemma adapt_from_dynamic_params_other_key:
  assumes "k \<noteq> ''__nextLocale''" and "k \<noteq> ''__nextInferredLocaleFromDefault''"
  shows "map_of (query (parsedURL (adapt_from_dynamic_params M L rpk did keys st))) k =
           (if k \<in> set keys then None else map_of (query (parsedURL st)) k)"
  using assms
  by (simp add: adapt_from_dynamic_params_def Let_def split_beta final_locale_stage_other_key
        map_of_foldl_obj_delete dynamic_params_stage_query map_of_obj_delete map_of_obj_set)



text \<open>
  C3, as stated, fails: the test at line 227 is on \<^verbatim>\<open>urlPathname\<close>, the pathname of
  \<^verbatim>\<open>req.url\<close>, not on the matched pathname. For a request whose \<^verbatim>\<open>x-matched-path\<close> is
  the data path \<^verbatim>\<open>/_next/data/b1/about.json\<close> and whose URL is \<^verbatim>\<open>/about\<close>, the key
  \<^verbatim>\<open>__nextDataReq\<close> is not set: the query stays empty.
\<close>

theorem data_marker_follows_url_pathname:
  "(case matching (data (normalizers (sample_adapter None PPR_undefined [])))
           ''/_next/data/b1/about.json'' of
      None \<Rightarrow> False
    | Some n \<Rightarrow> True) \<and>
   returned (MinimalRequestAdapter_adapt sample_imports (sample_adapter None PPR_undefined [])
     (matched_request ''GET'' ''/about'' ''/_next/data/b1/about.json'')) \<and>
   query (parsedURL (outcome_state (MinimalRequestAdapter_adapt sample_imports
     (sample_adapter None PPR_undefined [])
     (matched_request ''GET'' ''/about'' ''/_next/data/b1/about.json'')))) = []"
  by code_simp

text \<open>
  C3, amended: in \<^verbatim>\<open>MinimalRequestAdapter.adapt\<close>, for every request whose URL pathname
  (the pathname \<open>up\<close> of \<^verbatim>\<open>req.url\<close> at line 222, not the matched pathname) matches the
  data shape, the reserved query key \<^verbatim>\<open>__nextDataReq\<close> is set to \<^verbatim>\<open>"1"\<close> at line 228;
  and it is still \<^verbatim>\<open>"1"\<close> when \<^verbatim>\<open>adapt\<close> returns if the rewrite engine leaves that key
  as it is and the key normalization neither renames it nor maps another key of the
  query to it. (The locals \<open>i\<close>, \<open>mp\<close>, \<open>up\<close> and the states \<open>st1\<close>, \<open>st2\<close>, \<open>st3\<close> are the
  ones \<^verbatim>\<open>adapt\<close> reaches at lines 222, 254 and 336.)
\<close>

theorem data_marker_set_for_data_url:
  assumes seg1: "adapt_to_url_pathnames M this st = Inr (i, mp, up, st1)"
    and data_url: "matching (data (normalizers this)) up = Some n"
    and seg2: "matched_path_stage M this mp up st1 = (up', st2)"
    and seg3: "adapt_to_rewrites M this i mp up' st2 = (L, st3)"
    and rw: "handleRewrites (l_utils L) (req st3) (parsedURL st3) = (rp, pu')"
  shows "map_of (query (parsedURL st2)) ''__nextDataReq'' = Some (JString ''1'') \<and>
         returned (MinimalRequestAdapter_adapt M this st) \<and>
         (map_of (query pu') ''__nextDataReq'' = map_of (query (parsedURL st3)) ''__nextDataReq'' \<and>
          (\<forall>key \<in> fst ` set (query pu'). ''__nextDataReq'' \<notin> set (normalizeNextQueryParam M key)) \<and>
          normalizeNextQueryParam M ''__nextDataReq'' = [] \<longrightarrow>
            map_of (query (parsedURL (outcome_state (MinimalRequestAdapter_adapt M this st))))
              ''__nextDataReq'' = Some (JString ''1''))"
proof -
  obtain rpk did keys st4 where seg4: "rewrite_and_rename M L st3 = (rpk, did, keys, st4)"
    by (cases "rewrite_and_rename M L st3") auto
  have ret: "MinimalRequestAdapter_adapt M this st =
               Returned (adapt_from_dynamic_params M L rpk did keys st4)"
    by (rule adapt_returns [OF seg1 seg2 seg3 seg4])
  have set2: "map_of (query (parsedURL st2)) ''__nextDataReq'' = Some (JString ''1'')"
    using seg2 by (auto simp: matched_path_stage_data [OF data_url] map_of_obj_set)
  have set3: "map_of (query (parsedURL st3)) ''__nextDataReq'' = Some (JString ''1'')"
    using adapt_to_rewrites_frame [OF seg3] set2 by (simp add: locale_stage_other_key)
  have "map_of (query (parsedURL (adapt_from_dynamic_params M L rpk did keys st4)))
          ''__nextDataReq'' = Some (JString ''1'')"
    if kept: "map_of (query pu') ''__nextDataReq'' = map_of (query (parsedURL st3)) ''__nextDataReq''"
      and no_synonym: "\<forall>key \<in> fst ` set (query pu').
                         ''__nextDataReq'' \<notin> set (normalizeNextQueryParam M key)"
      and not_renamed: "normalizeNextQueryParam M ''__nextDataReq'' = []"
    using rewrite_and_rename_keeps [OF seg4 rw no_synonym not_renamed] kept set3
    by (simp add: adapt_from_dynamic_params_other_key)
  then show ?thesis
    by (simp add: ret set2)
qed

theorem data_marker_set_for_data_url_witness:
  "returned (MinimalRequestAdapter_adapt sample_imports (sample_adapter None PPR_undefined [])
     (matched_request ''GET'' ''/_next/data/b1/about.json'' ''/about'')) \<and>
   map_of (query (parsedURL (outcome_state (MinimalRequestAdapter_adapt sample_imports
     (sample_adapter None PPR_undefined [])
     (matched_request ''GET'' ''/_next/data/b1/about.json'' ''/about'')))))
     ''__nextDataReq'' = Some (JString ''1'')"
proof -
  let ?A = "sample_adapter None PPR_undefined []"
  let ?S = "matched_request ''GET'' ''/_next/data/b1/about.json'' ''/about''"
  have "case adapt_to_url_pathnames sample_imports ?A ?S of
          Inl e \<Rightarrow> False
        | Inr (i, mp, up, st1) \<Rightarrow>
            (case matching (data (normalizers ?A)) up of None \<Rightarrow> False | Some n \<Rightarrow> True) \<and>
            (case matched_path_stage sample_imports ?A mp up st1 of
               (up', st2) \<Rightarrow>
                 (case adapt_to_rewrites sample_imports ?A i mp up' st2 of
                    (L, st3) \<Rightarrow>
                      query (snd (handleRewrites (l_utils L) (req st3) (parsedURL st3))) =
                        query (parsedURL st3) \<and>
                      list_all (\<lambda>key. ''__nextDataReq'' \<notin>
                                        set (normalizeNextQueryParam sample_imports key))
                        (map fst (query (parsedURL st3)))))"
    by code_simp
  then obtain i mp up st1 n up' st2 L st3 rp pu' where
    seg1: "adapt_to_url_pathnames sample_imports ?A ?S = Inr (i, mp, up, st1)" and
    data_url: "matching (data (normalizers ?A)) up = Some n" and
    seg2: "matched_path_stage sample_imports ?A mp up st1 = (up', st2)" and
    seg3: "adapt_to_rewrites sample_imports ?A i mp up' st2 = (L, st3)" and
    rw: "handleRewrites (l_utils L) (req st3) (parsedURL st3) = (rp, pu')" and
    kept: "query pu' = query (parsedURL st3)" and
    no_synonym: "\<forall>key \<in> fst ` set (query pu').
                   ''__nextDataReq'' \<notin> set (normalizeNextQueryParam sample_imports key)"
    by (auto split: sum.splits prod.splits option.splits simp: list_all_iff)
       (metis prod.collapse)
  have not_renamed: "normalizeNextQueryParam sample_imports ''__nextDataReq'' = []"
    by code_simp
  from data_marker_set_for_data_url [OF seg1 data_url seg2 seg3 rw] kept no_synonym not_renamed
  show ?thesis by simp
qed



lemma meta_after_matched_path:
  assumes seg3: "adapt_to_rewrites M this i mp up' st2 = (L, st3)"
    and seg4: "rewrite_and_rename M L st3 = (rpk, did, keys, st4)"
    and k: "k \<noteq> ''rewroteURL''"
  shows "meta (req (adapt_from_dynamic_params M L rpk did keys st4)) k = meta (req st2) k"
  using adapt_to_rewrites_frame [OF seg3] rewrite_and_rename_frame [OF seg4]
    rewrite_stage_frame [of "l_utils L" st3] k
  by (simp add: adapt_from_dynamic_params_frame)

text \<open>
  C6, as stated, fails: the postponed branch is the \<^verbatim>\<open>else if\<close> of the data test. For a
  POST request whose matched path has the postponed shape and whose URL pathname has
  the data shape, the body is not read and no postponed metadata is stored.
\<close>

theorem postponed_skipped_for_data_url:
  "(case matching (postponed (normalizers (sample_adapter None (PPR_boolean True) [])))
           ''/_next/postponed/resume/x'' of
      None \<Rightarrow> False
    | Some n \<Rightarrow> True) \<and>
   req_method (req (matched_request ''POST'' ''/_next/data/b1/x.json''
                      ''/_next/postponed/resume/x'')) = ''POST'' \<and>
   returned (MinimalRequestAdapter_adapt sample_imports (sample_adapter None (PPR_boolean True) [])
     (matched_request ''POST'' ''/_next/data/b1/x.json'' ''/_next/postponed/resume/x'')) \<and>
   meta (req (outcome_state (MinimalRequestAdapter_adapt sample_imports
     (sample_adapter None (PPR_boolean True) [])
     (matched_request ''POST'' ''/_next/data/b1/x.json'' ''/_next/postponed/resume/x''))))
     ''postponed'' = None"
  by code_simp

text \<open>
  C6, amended: in \<^verbatim>\<open>MinimalRequestAdapter.adapt\<close>, for every request whose URL pathname
  does not match the data shape, whose matched path matches the postponed shape and
  whose method is POST, the body chunks are concatenated and decoded as UTF-8 and the
  resulting string is stored in the \<^verbatim>\<open>postponed\<close> metadata slot, where it still is when
  \<^verbatim>\<open>adapt\<close> returns; and \<^verbatim>\<open>urlPathname\<close> is recomputed by normalizing the matched
  pathname exactly when the \<^verbatim>\<open>x-now-route-matches\<close> header is absent or empty.
\<close>

theorem postponed_state_from_body:
  assumes seg1: "adapt_to_url_pathnames M this st = Inr (i, mp, up, st1)"
    and no_data: "matching (data (normalizers this)) up = None"
    and resume: "matching (postponed (normalizers this)) mp = Some n"
    and post: "req_method (req st) = ''POST''"
    and seg2: "matched_path_stage M this mp up st1 = (up', st2)"
  shows "meta (req st2) ''postponed'' =
           Some (JString (Buffer_toString_utf8 M (concat (body (req st))))) \<and>
         up' = (if header_truthy (headers (req st1) ''x-now-route-matches'') then up
                else nz_normalize n mp (Some True)) \<and>
         returned (MinimalRequestAdapter_adapt M this st) \<and>
         meta (req (outcome_state (MinimalRequestAdapter_adapt M this st))) ''postponed'' =
           Some (JString (Buffer_toString_utf8 M (concat (body (req st)))))"
proof -
  obtain L st3 where seg3: "adapt_to_rewrites M this i mp up' st2 = (L, st3)"
    by (cases "adapt_to_rewrites M this i mp up' st2") auto
  obtain rpk did keys st4 where seg4: "rewrite_and_rename M L st3 = (rpk, did, keys, st4)"
    by (cases "rewrite_and_rename M L st3") auto
  have ret: "MinimalRequestAdapter_adapt M this st =
               Returned (adapt_from_dynamic_params M L rpk did keys st4)"
    by (rule adapt_returns [OF seg1 seg2 seg3 seg4])
  have st1: "req_method (req st1) = ''POST''" "body (req st1) = body (req st)"
    using adapt_to_url_pathnames_frame [OF seg1] post by simp_all
  from matched_path_stage_postponed [OF no_data resume st1(1), of M] seg2
  have up': "up' = (if header_truthy (headers (req st1) ''x-now-route-matches'') then up
                    else nz_normalize n mp (Some True))"
    and m2: "meta (req st2) ''postponed'' =
               Some (JString (Buffer_toString_utf8 M (concat (body (req st)))))"
    by (auto simp: addRequestMeta_def st1)
  from meta_after_matched_path [OF seg3 seg4, of "''postponed''"] m2 up' show ?thesis
    by (simp add: ret)
qed

theorem postponed_state_from_body_witness:
  "returned (MinimalRequestAdapter_adapt sample_imports (sample_adapter None (PPR_boolean True) [])
     (matched_request ''POST'' ''/x'' ''/_next/postponed/resume/x'')) \<and>
   meta (req (outcome_state (MinimalRequestAdapter_adapt sample_imports
     (sample_adapter None (PPR_boolean True) [])
     (matched_request ''POST'' ''/x'' ''/_next/postponed/resume/x''))))
     ''postponed'' = Some (JString ''abc'')"
proof -
  let ?A = "sample_adapter None (PPR_boolean True) []"
  let ?S = "matched_request ''POST'' ''/x'' ''/_next/postponed/resume/x''"
  have "case adapt_to_url_pathnames sample_imports ?A ?S of
          Inl e \<Rightarrow> False
        | Inr (i, mp, up, st1) \<Rightarrow>
            (case matching (data (normalizers ?A)) up of None \<Rightarrow> True | Some n \<Rightarrow> False) \<and>
            (case matching (postponed (normalizers ?A)) mp of None \<Rightarrow> False | Some n \<Rightarrow> True)"
    by code_simp
  then obtain i mp up st1 n where
    seg1: "adapt_to_url_pathnames sample_imports ?A ?S = Inr (i, mp, up, st1)" and
    no_data: "matching (data (normalizers ?A)) up = None" and
    resume: "matching (postponed (normalizers ?A)) mp = Some n"
    by (auto split: sum.splits option.splits)
  obtain up' st2 where seg2: "matched_path_stage sample_imports ?A mp up st1 = (up', st2)"
    by (cases "matched_path_stage sample_imports ?A mp up st1") auto
  have post: "req_method (req ?S) = ''POST''"
    by (simp add: matched_request_def sample_state_def sample_request_def)
  from postponed_state_from_body [OF seg1 no_data resume post seg2] show ?thesis
    by (simp add: matched_request_def sample_state_def sample_request_def sample_imports_def)
qed

lemma same_pathname:
  "pathname (parsedURL s) = Some p \<Longrightarrow>
   s\<lparr>parsedURL := (parsedURL s)\<lparr>query := q, query_prototype := pr\<rparr>\<rparr> =
   s\<lparr>parsedURL := (parsedURL s)\<lparr>query := q, query_prototype := pr, pathname := Some p\<rparr>\<rparr>"
  by (cases s, cases "parsedURL s") auto

text \<open>
  C7, as stated, fails: in \<^verbatim>\<open>MinimalRequestAdapter.adapt\<close> the entry is not recorded
  whenever the pathname changed, because the test at line 343 also asks that the new
  pathname is not empty. With a rewrite engine that rewrites \<^verbatim>\<open>/a\<close> to the empty
  pathname, the pathname before the rewrite is \<^verbatim>\<open>/a\<close>, the pathname after it is empty,
  and the request that \<^verbatim>\<open>adapt\<close> returns has no \<^verbatim>\<open>rewroteURL\<close> entry.
\<close>

theorem rewrite_to_empty_pathname_not_recorded:
  "(case adapt_to_url_pathnames sample_imports rewrite_a_to_empty
           (matched_request ''GET'' ''/a'' ''/b'') of
      Inl e \<Rightarrow> False
    | Inr (i, mp, up, st1) \<Rightarrow>
        (case matched_path_stage sample_imports rewrite_a_to_empty mp up st1 of
           (up', st2) \<Rightarrow>
             (case adapt_to_rewrites sample_imports rewrite_a_to_empty i mp up' st2 of
                (L, st3) \<Rightarrow>
                  pathname (parsedURL st3) = Some ''/a'' \<and>
                  pathname (snd (handleRewrites (l_utils L) (req st3) (parsedURL st3))) =
                    Some []))) \<and>
   returned (MinimalRequestAdapter_adapt sample_imports rewrite_a_to_empty
               (matched_request ''GET'' ''/a'' ''/b'')) \<and>
   meta (req (outcome_state (MinimalRequestAdapter_adapt sample_imports rewrite_a_to_empty
                               (matched_request ''GET'' ''/a'' ''/b'')))) ''rewroteURL'' = None"
  by (intro conjI; code_simp)

text \<open>
  C7, amended. In \<^verbatim>\<open>MinimalRequestAdapter.adapt\<close> the \<^verbatim>\<open>rewroteURL\<close> entry is recorded
  if and only if the rewrite engine changed the pathname to a pathname that is not
  empty: when it changes the pathname to such a pathname \<open>b\<close> (from \<^verbatim>\<open>/a\<close> to \<^verbatim>\<open>/b\<close>, say),
  the metadata of the request that \<^verbatim>\<open>adapt\<close> returns has \<^verbatim>\<open>rewroteURL\<close> equal to \<open>b\<close>;
  when the pathname is unchanged, or changed to an empty or absent pathname, the entry
  is as it was before the call: none is added. In \<^verbatim>\<open>InternalRequestAdapter.adapt\<close>,
  without a status header, the entry is recorded if and only if the pathname after the
  base adapter differs from the original pathname.
\<close>

theorem rewrote_url_recorded_iff_rewritten:
  "(adapt_to_url_pathnames M this st = Inr (i, mp, up, st1) \<and>
    matched_path_stage M this mp up st1 = (up', st2) \<and>
    adapt_to_rewrites M this i mp up' st2 = (L, st3) \<and>
    handleRewrites (l_utils L) (req st3) (parsedURL st3) = (rp, pu') \<longrightarrow>
      returned (MinimalRequestAdapter_adapt M this st) \<and>
      (pathname pu' \<noteq> pathname (parsedURL st3) \<and> pathname pu' = Some b \<and> b \<noteq> [] \<longrightarrow>
         meta (req (outcome_state (MinimalRequestAdapter_adapt M this st))) ''rewroteURL'' =
           Some (JString b)) \<and>
      (pathname pu' = pathname (parsedURL st3) \<longrightarrow>
         meta (req (outcome_state (MinimalRequestAdapter_adapt M this st))) ''rewroteURL'' =
           meta (req st) ''rewroteURL'') \<and>
      (pathname pu' = None \<or> pathname pu' = Some [] \<longrightarrow>
         meta (req (outcome_state (MinimalRequestAdapter_adapt M this st))) ''rewroteURL'' =
           meta (req st) ''rewroteURL'')) \<and>
   (headers (req s) ''x-invoke-path'' = Some (HString p) \<and> p \<noteq> [] \<and>
    (\<forall>t. headers (req s) ''x-invoke-status'' \<noteq> Some (HString t)) \<and>
    apply_invoke_query (headers (req s) ''x-invoke-query'') (strip_query (query (parsedURL s)))
      (query_prototype (parsedURL s)) = Inr (q, pr) \<and>
    base_adapt (s\<lparr>parsedURL := (parsedURL s)\<lparr>query := q, query_prototype := pr,
                                             pathname := Some p\<rparr>\<rparr>) = Returned s' \<longrightarrow>
      InternalRequestAdapter_adapt base_adapt s =
        Returned (if pathname (parsedURL s') \<noteq> pathname (parsedURL s)
                  then s'\<lparr>req := addRequestMeta (req s') ''rewroteURL''
                                  (pathname_value (pathname (parsedURL s')))\<rparr>
                  else s'))"
proof (intro conjI impI)
  assume segs: "adapt_to_url_pathnames M this st = Inr (i, mp, up, st1) \<and>
    matched_path_stage M this mp up st1 = (up', st2) \<and>
    adapt_to_rewrites M this i mp up' st2 = (L, st3) \<and>
    handleRewrites (l_utils L) (req st3) (parsedURL st3) = (rp, pu')"
  then have seg1: "adapt_to_url_pathnames M this st = Inr (i, mp, up, st1)"
    and seg2: "matched_path_stage M this mp up st1 = (up', st2)"
    and seg3: "adapt_to_rewrites M this i mp up' st2 = (L, st3)"
    and rw: "handleRewrites (l_utils L) (req st3) (parsedURL st3) = (rp, pu')"
    by simp_all
  obtain rpk did keys st4 where seg4: "rewrite_and_rename M L st3 = (rpk, did, keys, st4)"
    by (cases "rewrite_and_rename M L st3") auto
  have ret: "MinimalRequestAdapter_adapt M this st =
               Returned (adapt_from_dynamic_params M L rpk did keys st4)"
    by (rule adapt_returns [OF seg1 seg2 seg3 seg4])
  show "returned (MinimalRequestAdapter_adapt M this st)"
    by (simp add: ret)
  have final: "meta (req (outcome_state (MinimalRequestAdapter_adapt M this st))) ''rewroteURL'' =
                 (if pathname pu' \<noteq> pathname (parsedURL st3) \<and> \<not> pathname_falsy (pathname pu')
                  then Some (pathname_value (pathname pu')) else meta (req st) ''rewroteURL'')"
  proof -
    have "meta (req st4) ''rewroteURL'' =
            (if pathname pu' \<noteq> pathname (parsedURL st3) \<and> \<not> pathname_falsy (pathname pu')
             then Some (pathname_value (pathname pu')) else meta (req st3) ''rewroteURL'')"
      using rewrite_and_rename_frame [OF seg4] rewrite_stage_meta [of "l_utils L" st3]
      by (simp add: rw Let_def)
    moreover have "meta (req st3) ''rewroteURL'' = meta (req st) ''rewroteURL''"
      using adapt_to_rewrites_frame [OF seg3] matched_path_stage_frame [of M this mp up st1]
        adapt_to_url_pathnames_frame [OF seg1]
      by (simp add: seg2)
    ultimately show ?thesis
      by (simp add: ret adapt_from_dynamic_params_frame)
  qed
  show "meta (req (outcome_state (MinimalRequestAdapter_adapt M this st))) ''rewroteURL'' =
          Some (JString b)"
    if "pathname pu' \<noteq> pathname (parsedURL st3) \<and> pathname pu' = Some b \<and> b \<noteq> []"
    using that by (auto simp: final pathname_falsy_def pathname_value_def)
  show "meta (req (outcome_state (MinimalRequestAdapter_adapt M this st))) ''rewroteURL'' =
          meta (req st) ''rewroteURL''"
    if "pathname pu' = pathname (parsedURL st3)"
    using that by (simp add: final)
  show "meta (req (outcome_state (MinimalRequestAdapter_adapt M this st))) ''rewroteURL'' =
          meta (req st) ''rewroteURL''"
    if "pathname pu' = None \<or> pathname pu' = Some []"
    using that by (auto simp: final pathname_falsy_def)
next
  assume "headers (req s) ''x-invoke-path'' = Some (HString p) \<and> p \<noteq> [] \<and>
    (\<forall>t. headers (req s) ''x-invoke-status'' \<noteq> Some (HString t)) \<and>
    apply_invoke_query (headers (req s) ''x-invoke-query'') (strip_query (query (parsedURL s)))
      (query_prototype (parsedURL s)) = Inr (q, pr) \<and>
    base_adapt (s\<lparr>parsedURL := (parsedURL s)\<lparr>query := q, query_prototype := pr,
                                             pathname := Some p\<rparr>\<rparr>) = Returned s'"
  then show "InternalRequestAdapter_adapt base_adapt s =
        Returned (if pathname (parsedURL s') \<noteq> pathname (parsedURL s)
                  then s'\<lparr>req := addRequestMeta (req s') ''rewroteURL''
                                  (pathname_value (pathname (parsedURL s')))\<rparr>
                  else s')"
    by (auto simp: InternalRequestAdapter_adapt_def Let_def same_pathname
             split: option.splits header_value.splits)
qed

theorem rewrote_url_recorded_iff_rewritten_witness:
  "meta (req (outcome_state (MinimalRequestAdapter_adapt sample_imports rewrite_a_to_b
     (matched_request ''GET'' ''/a'' ''/b'')))) ''rewroteURL'' = Some (JString ''/b'') \<and>
   meta (req (outcome_state (MinimalRequestAdapter_adapt sample_imports rewrite_a_to_b
     (matched_request ''GET'' ''/c'' ''/c'')))) ''rewroteURL'' = None \<and>
   meta (req (outcome_state (MinimalRequestAdapter_adapt sample_imports rewrite_a_to_empty
     (matched_request ''GET'' ''/a'' ''/b'')))) ''rewroteURL'' = None \<and>
   InternalRequestAdapter_adapt Returned (invoke_state [(''x-invoke-path'', HString ''/b'')]) =
     Returned ((invoke_state [(''x-invoke-path'', HString ''/b'')])
       \<lparr>parsedURL := \<lparr>pathname = Some ''/b'', query = [(''__nextLocale'', JString ''en'')],
                       query_prototype = Object_prototype\<rparr>,
        req := addRequestMeta (req (invoke_state [(''x-invoke-path'', HString ''/b'')]))
                 ''rewroteURL'' (JString ''/b'')\<rparr>)"
proof -
  have run: "meta (req (outcome_state (MinimalRequestAdapter_adapt sample_imports A
                 (matched_request ''GET'' u m)))) ''rewroteURL'' =
               (if u' = u \<or> u' = [] then None else Some (JString u'))"
    if segs: "case adapt_to_url_pathnames sample_imports A (matched_request ''GET'' u m) of
          Inl e \<Rightarrow> False
        | Inr (i, mp, up, st1) \<Rightarrow>
            (case matched_path_stage sample_imports A mp up st1 of
               (up', st2) \<Rightarrow>
                 (case adapt_to_rewrites sample_imports A i mp up' st2 of
                    (L, st3) \<Rightarrow>
                      pathname (parsedURL st3) = Some u \<and>
                      pathname (snd (handleRewrites (l_utils L) (req st3) (parsedURL st3))) =
                        Some u'))"
    for A u m u'
  proof -
    from segs obtain i mp up st1 up' st2 L st3 rp pu' where
      s: "adapt_to_url_pathnames sample_imports A (matched_request ''GET'' u m) =
            Inr (i, mp, up, st1) \<and>
          matched_path_stage sample_imports A mp up st1 = (up', st2) \<and>
          adapt_to_rewrites sample_imports A i mp up' st2 = (L, st3) \<and>
          handleRewrites (l_utils L) (req st3) (parsedURL st3) = (rp, pu')" and
      before: "pathname (parsedURL st3) = Some u" and
      after: "pathname pu' = Some u'"
      by (auto split: sum.splits prod.splits) (metis prod.collapse)
    have none: "meta (req (matched_request ''GET'' u m)) ''rewroteURL'' = None"
      by (simp add: matched_request_def sample_state_def sample_request_def)
    from rewrote_url_recorded_iff_rewritten
           [of sample_imports A "matched_request ''GET'' u m" i mp up st1 up' st2 L st3 rp pu' u']
         s before after none
    show ?thesis
      by auto
  qed
  have changed: "case adapt_to_url_pathnames sample_imports rewrite_a_to_b (matched_request ''GET'' ''/a'' ''/b'') of
          Inl e \<Rightarrow> False
        | Inr (i, mp, up, st1) \<Rightarrow>
            (case matched_path_stage sample_imports rewrite_a_to_b mp up st1 of
               (up', st2) \<Rightarrow>
                 (case adapt_to_rewrites sample_imports rewrite_a_to_b i mp up' st2 of
                    (L, st3) \<Rightarrow>
                      pathname (parsedURL st3) = Some ''/a'' \<and>
                      pathname (snd (handleRewrites (l_utils L) (req st3) (parsedURL st3))) =
                        Some ''/b''))"
    by code_simp
  have unchanged: "case adapt_to_url_pathnames sample_imports rewrite_a_to_b (matched_request ''GET'' ''/c'' ''/c'') of
          Inl e \<Rightarrow> False
        | Inr (i, mp, up, st1) \<Rightarrow>
            (case matched_path_stage sample_imports rewrite_a_to_b mp up st1 of
               (up', st2) \<Rightarrow>
                 (case adapt_to_rewrites sample_imports rewrite_a_to_b i mp up' st2 of
                    (L, st3) \<Rightarrow>
                      pathname (parsedURL st3) = Some ''/c'' \<and>
                      pathname (snd (handleRewrites (l_utils L) (req st3) (parsedURL st3))) =
                        Some ''/c''))"
    by code_simp
  have emptied: "case adapt_to_url_pathnames sample_imports rewrite_a_to_empty (matched_request ''GET'' ''/a'' ''/b'') of
          Inl e \<Rightarrow> False
        | Inr (i, mp, up, st1) \<Rightarrow>
            (case matched_path_stage sample_imports rewrite_a_to_empty mp up st1 of
               (up', st2) \<Rightarrow>
                 (case adapt_to_rewrites sample_imports rewrite_a_to_empty i mp up' st2 of
                    (L, st3) \<Rightarrow>
                      pathname (parsedURL st3) = Some ''/a'' \<and>
                      pathname (snd (handleRewrites (l_utils L) (req st3) (parsedURL st3))) =
                        Some []))"
    by code_simp
  let ?X = "invoke_state [(''x-invoke-path'', HString ''/b'')]"
  have internal: "InternalRequestAdapter_adapt Returned ?X =
     Returned (?X\<lparr>parsedURL := \<lparr>pathname = Some ''/b'', query = [(''__nextLocale'', JString ''en'')],
                                 query_prototype = Object_prototype\<rparr>,
                  req := addRequestMeta (req ?X) ''rewroteURL'' (JString ''/b'')\<rparr>)"
    using rewrote_url_recorded_iff_rewritten
           [where s = ?X and p = "''/b''" and q = "[(''__nextLocale'', JString ''en'')]"
              and pr = Object_prototype and base_adapt = Returned
              and s' = "?X\<lparr>parsedURL := (parsedURL ?X)
                         \<lparr>query := [(''__nextLocale'', JString ''en'')],
                          query_prototype := Object_prototype, pathname := Some ''/b''\<rparr>\<rparr>"]
    by (simp add: invoke_state_def sample_state_def sample_request_def apply_invoke_query_def
          strip_query_filter startsWith_def pathname_value_def)
  from run [OF changed] run [OF unchanged] run [OF emptied] internal
  show ?thesis by simp
qed

lemma locale_stage_locale_keys:
  "map_of (query (parsedURL (locale_stage (Some r) st))) ''__nextLocale'' =
     Some (case detectedLocale r of None \<Rightarrow> JUndefined | Some l \<Rightarrow> JString l) \<and>
   map_of (query (parsedURL (locale_stage (Some r) st))) ''__nextInferredLocaleFromDefault'' =
     (if inferredFromDefault r then Some (JString ''1'') else None)"
  by (simp add: locale_stage_def Let_def map_of_obj_set map_of_obj_delete)

text \<open>Whether the extraction from the route matches header runs at line 394 and supplies a locale.\<close>

lemma dynamic_params_stage_locale:
  assumes "header_truthy (headers (req st) ''x-now-route-matches'')"
    and "isDynamicRoute M m"
    and "\<not> hasValidParams (params_from_query_or_url M u n d st)"
    and "snd (getParamsFromRouteMatches u (req st) (route_matches_locale_arg st)) ''locale'' = Some l"
    and "l \<noteq> []"
  shows "map_of (query (parsedURL (snd (dynamic_params_stage M u s n m d st)))) ''__nextLocale'' =
           Some (JString l) \<and>
         map_of (query (parsedURL (snd (dynamic_params_stage M u s n m d st))))
           ''__nextInferredLocaleFromDefault'' = None"
  using assms
  by (simp add: dynamic_params_stage_query string_truthy_def map_of_obj_set map_of_obj_delete)

lemma adapt_from_dynamic_params_final:
  "\<exists>st'. adapt_from_dynamic_params M L rpk did keys st =
           final_locale_stage (l_i18n L) (l_defaultLocale L) st' \<and>
         query (parsedURL st') =
           foldl obj_delete
             (query (parsedURL
                (if l_pageIsDynamic L
                 then snd (dynamic_params_stage M (l_utils L) (l_srcPathname L)
                             (l_normalizedUrlPath L) (l_matchedPath L) (l_pageIsDynamic L) st)
                 else st)))
             keys"
  unfolding adapt_from_dynamic_params_def Let_def split_beta
  by (rule exI, rule conjI, rule refl) simp

lemma adapt_from_dynamic_params_locale_kept:
  assumes no_locale:
      "\<not> (l_pageIsDynamic L \<and> header_truthy (headers (req st) ''x-now-route-matches'') \<and>
          isDynamicRoute M (l_matchedPath L) \<and>
          \<not> hasValidParams (params_from_query_or_url M (l_utils L) (l_normalizedUrlPath L)
                              (l_pageIsDynamic L) st) \<and>
          string_truthy (snd (getParamsFromRouteMatches (l_utils L) (req st)
                                (route_matches_locale_arg st)) ''locale''))"
    and keys: "''__nextLocale'' \<notin> set keys" "''__nextInferredLocaleFromDefault'' \<notin> set keys"
    and loc: "map_of (query (parsedURL st)) ''__nextLocale'' = Some (JString l)" "l \<noteq> []"
  shows "map_of (query (parsedURL (adapt_from_dynamic_params M L rpk did keys st))) ''__nextLocale'' =
           Some (JString l) \<and>
         map_of (query (parsedURL (adapt_from_dynamic_params M L rpk did keys st)))
           ''__nextInferredLocaleFromDefault'' =
           map_of (query (parsedURL st)) ''__nextInferredLocaleFromDefault''"
proof -
  let ?st1 = "if l_pageIsDynamic L
              then snd (dynamic_params_stage M (l_utils L) (l_srcPathname L) (l_normalizedUrlPath L)
                          (l_matchedPath L) (l_pageIsDynamic L) st)
              else st"
  have q1: "query (parsedURL ?st1) = query (parsedURL st)"
    using no_locale by (auto simp: dynamic_params_stage_query)
  let ?q = "foldl obj_delete (query (parsedURL st)) keys"
  have k: "map_of ?q ''__nextLocale'' = Some (JString l)"
          "map_of ?q ''__nextInferredLocaleFromDefault'' =
             map_of (query (parsedURL st)) ''__nextInferredLocaleFromDefault''"
    using keys loc by (simp_all add: map_of_foldl_obj_delete)
  have t: "truthy (obj_get ?q ''__nextLocale'')"
    using k(1) loc(2) by (simp add: obj_get_def)
  from adapt_from_dynamic_params_final [of M L rpk did keys st] obtain st' where
    f: "adapt_from_dynamic_params M L rpk did keys st =
          final_locale_stage (l_i18n L) (l_defaultLocale L) st'" and
    q: "query (parsedURL st') = foldl obj_delete (query (parsedURL ?st1)) keys"
    by blast
  show ?thesis
    using k t by (simp add: f final_locale_stage_truthy q q1)
qed

lemma adapt_from_dynamic_params_locale_supplied:
  assumes "l_pageIsDynamic L"
    and "header_truthy (headers (req st) ''x-now-route-matches'')"
    and "isDynamicRoute M (l_matchedPath L)"
    and "\<not> hasValidParams (params_from_query_or_url M (l_utils L) (l_normalizedUrlPath L)
                            (l_pageIsDynamic L) st)"
    and "snd (getParamsFromRouteMatches (l_utils L) (req st) (route_matches_locale_arg st))
           ''locale'' = Some l"
    and "l \<noteq> []"
    and keys: "''__nextLocale'' \<notin> set keys"
  shows "map_of (query (parsedURL (adapt_from_dynamic_params M L rpk did keys st))) ''__nextLocale'' =
           Some (JString l) \<and>
         map_of (query (parsedURL (adapt_from_dynamic_params M L rpk did keys st)))
           ''__nextInferredLocaleFromDefault'' = None"
proof -
  let ?st1 = "snd (dynamic_params_stage M (l_utils L) (l_srcPathname L) (l_normalizedUrlPath L)
                     (l_matchedPath L) (l_pageIsDynamic L) st)"
  have q1: "map_of (query (parsedURL ?st1)) ''__nextLocale'' = Some (JString l)"
           "map_of (query (parsedURL ?st1)) ''__nextInferredLocaleFromDefault'' = None"
    using dynamic_params_stage_locale [OF assms(2-6)] by simp_all
  let ?q = "foldl obj_delete (query (parsedURL ?st1)) keys"
  have k: "map_of ?q ''__nextLocale'' = Some (JString l)"
          "map_of ?q ''__nextInferredLocaleFromDefault'' = None"
    using keys q1 by (simp_all add: map_of_foldl_obj_delete)
  have t: "truthy (obj_get ?q ''__nextLocale'')"
    using k(1) \<open>l \<noteq> []\<close> by (simp add: obj_get_def)
  from adapt_from_dynamic_params_final [of M L rpk did keys st] \<open>l_pageIsDynamic L\<close>
  obtain st' where
    f: "adapt_from_dynamic_params M L rpk did keys st =
          final_locale_stage (l_i18n L) (l_defaultLocale L) st'" and
    q: "query (parsedURL st') = foldl obj_delete (query (parsedURL ?st1)) keys"
    by auto
  show ?thesis
    using k t by (simp add: f final_locale_stage_truthy q)
qed

text \<open>
  C5, as stated, fails: a query key that the key normalization maps to one of the two
  reserved keys makes that key a route parameter key, and line 441 deletes it. With the
  default locale \<^verbatim>\<open>en\<close> inferred for \<^verbatim>\<open>/about\<close> and the query key
  \<^verbatim>\<open>nxtP__nextInferredLocaleFromDefault\<close>, the final query has no
  \<^verbatim>\<open>__nextInferredLocaleFromDefault\<close>; and with the query key \<^verbatim>\<open>nxtP__nextLocale\<close>, the
  locale \<^verbatim>\<open>fr\<close> that the route matches header supplies is deleted again and the final
  query has the inferred default \<^verbatim>\<open>en\<close>.
\<close>

theorem locale_keys_lost_to_route_param_keys:
  "analyze sample_provider ''/about'' (Some (Some ''en'')) =
     Some \<lparr> detectedLocale = Some ''en'', inferredFromDefault = True, la_pathname = ''/about'' \<rparr> \<and>
   returned (MinimalRequestAdapter_adapt sample_imports localized
     (localized_request ''/about'' [] [(''nxtP__nextInferredLocaleFromDefault'', JString ''1'')])) \<and>
   query (parsedURL (outcome_state (MinimalRequestAdapter_adapt sample_imports localized
     (localized_request ''/about'' [] [(''nxtP__nextInferredLocaleFromDefault'', JString ''1'')])))) =
     [(''__nextLocale'', JString ''en'')] \<and>
   snd (getParamsFromRouteMatches
          (server_utils sample_imports localized True ''/blog/[slug]'')
          (req (localized_request ''/blog/[slug]'' [(''x-now-route-matches'', HString ''fr/hello'')]
                  [(''nxtP__nextLocale'', JString ''de'')]))
          (JString ''de'')) ''locale'' = Some ''fr'' \<and>
   pathname (parsedURL (outcome_state (MinimalRequestAdapter_adapt sample_imports localized
     (localized_request ''/blog/[slug]'' [(''x-now-route-matches'', HString ''fr/hello'')]
        [(''nxtP__nextLocale'', JString ''de'')])))) = Some ''/blog/hello'' \<and>
   query (parsedURL (outcome_state (MinimalRequestAdapter_adapt sample_imports localized
     (localized_request ''/blog/[slug]'' [(''x-now-route-matches'', HString ''fr/hello'')]
        [(''nxtP__nextLocale'', JString ''de'')])))) =
     [(''__nextLocale'', JString ''en''), (''__nextInferredLocaleFromDefault'', JString ''1'')]"
  by code_simp



text \<open>
  C5, amended. First part: for every request for which the default locale is \<^verbatim>\<open>en\<close>
  and the analysis of the matched path reports it as inferred (no explicit locale in the
  pathname), after \<^verbatim>\<open>adapt\<close> the query key \<^verbatim>\<open>__nextLocale\<close> equals \<^verbatim>\<open>"en"\<close> and
  \<^verbatim>\<open>__nextInferredLocaleFromDefault\<close> equals \<^verbatim>\<open>"1"\<close>, provided the extraction from the
  route matches header supplies no locale, the rewrite engine leaves the two keys as
  they are, and the key normalization neither renames them nor maps another key of the
  query to them. Second part: whenever the extraction from the route matches header
  runs and supplies the locale \<^verbatim>\<open>fr\<close>, the final query has \<^verbatim>\<open>__nextLocale\<close> equal to
  \<^verbatim>\<open>"fr"\<close> and no \<^verbatim>\<open>__nextInferredLocaleFromDefault\<close>, provided \<^verbatim>\<open>__nextLocale\<close> is not
  among the route parameter keys collected at lines 346 to 358. (\<open>supplied\<close> is the locale
  the extraction at line 394 supplies, \<open>None\<close> when it does not run.)
\<close>

theorem locale_keys_of_the_final_query:
  assumes seg1: "adapt_to_url_pathnames M this st = Inr (i, mp, up, st1)"
    and seg2: "matched_path_stage M this mp up st1 = (up', st2)"
    and seg3: "adapt_to_rewrites M this i mp up' st2 = (L, st3)"
    and rw: "handleRewrites (l_utils L) (req st3) (parsedURL st3) = (rp, pu')"
    and seg4: "rewrite_and_rename M L st3 = (rpk, did, keys, st4)"
    and final: "final = query (parsedURL (outcome_state (MinimalRequestAdapter_adapt M this st)))"
    and supplied: "supplied =
      (if l_pageIsDynamic L \<and> header_truthy (headers (req st4) ''x-now-route-matches'') \<and>
          isDynamicRoute M (l_matchedPath L) \<and>
          \<not> hasValidParams (params_from_query_or_url M (l_utils L) (l_normalizedUrlPath L)
                              (l_pageIsDynamic L) st4)
       then snd (getParamsFromRouteMatches (l_utils L) (req st4) (route_matches_locale_arg st4))
              ''locale''
       else None)"
  shows "returned (MinimalRequestAdapter_adapt M this st) \<and>
    (l_defaultLocale L = Some ''en'' \<and> l_localeAnalysisResult L = Some r \<and>
     inferredFromDefault r \<and> detectedLocale r = Some ''en'' \<and>
     \<not> string_truthy supplied \<and>
     map_of (query pu') ''__nextLocale'' = map_of (query (parsedURL st3)) ''__nextLocale'' \<and>
     map_of (query pu') ''__nextInferredLocaleFromDefault'' =
       map_of (query (parsedURL st3)) ''__nextInferredLocaleFromDefault'' \<and>
     (\<forall>key \<in> fst ` set (query pu').
        ''__nextLocale'' \<notin> set (normalizeNextQueryParam M key) \<and>
        ''__nextInferredLocaleFromDefault'' \<notin> set (normalizeNextQueryParam M key)) \<and>
     normalizeNextQueryParam M ''__nextLocale'' = [] \<and>
     normalizeNextQueryParam M ''__nextInferredLocaleFromDefault'' = [] \<longrightarrow>
       map_of final ''__nextLocale'' = Some (JString ''en'') \<and>
       map_of final ''__nextInferredLocaleFromDefault'' = Some (JString ''1'')) \<and>
    (supplied = Some ''fr'' \<and> ''__nextLocale'' \<notin> set keys \<longrightarrow>
       map_of final ''__nextLocale'' = Some (JString ''fr'') \<and>
       map_of final ''__nextInferredLocaleFromDefault'' = None)"
proof (intro conjI impI)
  have ret: "MinimalRequestAdapter_adapt M this st =
               Returned (adapt_from_dynamic_params M L rpk did keys st4)"
    by (rule adapt_returns [OF seg1 seg2 seg3 seg4])
  show "returned (MinimalRequestAdapter_adapt M this st)"
    by (simp add: ret)
  have fin: "final = query (parsedURL (adapt_from_dynamic_params M L rpk did keys st4))"
    by (simp add: final ret)
  {
    assume a: "l_defaultLocale L = Some ''en'' \<and> l_localeAnalysisResult L = Some r \<and>
     inferredFromDefault r \<and> detectedLocale r = Some ''en'' \<and>
     \<not> string_truthy supplied \<and>
     map_of (query pu') ''__nextLocale'' = map_of (query (parsedURL st3)) ''__nextLocale'' \<and>
     map_of (query pu') ''__nextInferredLocaleFromDefault'' =
       map_of (query (parsedURL st3)) ''__nextInferredLocaleFromDefault'' \<and>
     (\<forall>key \<in> fst ` set (query pu').
        ''__nextLocale'' \<notin> set (normalizeNextQueryParam M key) \<and>
        ''__nextInferredLocaleFromDefault'' \<notin> set (normalizeNextQueryParam M key)) \<and>
     normalizeNextQueryParam M ''__nextLocale'' = [] \<and>
     normalizeNextQueryParam M ''__nextInferredLocaleFromDefault'' = []"
    from a have lar: "l_localeAnalysisResult L = Some r" "inferredFromDefault r"
      "detectedLocale r = Some ''en''"
      by simp_all
    have "query (parsedURL st3) = query (parsedURL (locale_stage (l_localeAnalysisResult L) st2))"
      using adapt_to_rewrites_frame [OF seg3] by blast
    then have q3eq: "query (parsedURL st3) = query (parsedURL (locale_stage (Some r) st2))"
      unfolding lar(1) .
    have q3: "map_of (query (parsedURL st3)) ''__nextLocale'' = Some (JString ''en'')"
             "map_of (query (parsedURL st3)) ''__nextInferredLocaleFromDefault'' = Some (JString ''1'')"
      using locale_stage_locale_keys [of r st2] lar(2,3)
      by (simp_all add: q3eq)
    have k1: "map_of (query (parsedURL st4)) ''__nextLocale'' = Some (JString ''en'') \<and>
              ''__nextLocale'' \<notin> set keys"
      using rewrite_and_rename_keeps [OF seg4 rw, of "''__nextLocale''"] a q3 by simp
    have k2: "map_of (query (parsedURL st4)) ''__nextInferredLocaleFromDefault'' =
                Some (JString ''1'') \<and>
              ''__nextInferredLocaleFromDefault'' \<notin> set keys"
      using rewrite_and_rename_keeps [OF seg4 rw, of "''__nextInferredLocaleFromDefault''"] a q3
      by simp
    have no_locale:
      "\<not> (l_pageIsDynamic L \<and> header_truthy (headers (req st4) ''x-now-route-matches'') \<and>
          isDynamicRoute M (l_matchedPath L) \<and>
          \<not> hasValidParams (params_from_query_or_url M (l_utils L) (l_normalizedUrlPath L)
                              (l_pageIsDynamic L) st4) \<and>
          string_truthy (snd (getParamsFromRouteMatches (l_utils L) (req st4)
                                (route_matches_locale_arg st4)) ''locale''))"
      using a by (auto simp: supplied)
    from adapt_from_dynamic_params_locale_kept [OF no_locale, of keys "''en''" rpk did] k1 k2
    have "map_of final ''__nextLocale'' = Some (JString ''en'') \<and>
          map_of final ''__nextInferredLocaleFromDefault'' = Some (JString ''1'')"
      by (simp add: fin)
  }
  then show "map_of final ''__nextLocale'' = Some (JString ''en'')"
    and "map_of final ''__nextInferredLocaleFromDefault'' = Some (JString ''1'')"
    if "l_defaultLocale L = Some ''en'' \<and> l_localeAnalysisResult L = Some r \<and>
     inferredFromDefault r \<and> detectedLocale r = Some ''en'' \<and>
     \<not> string_truthy supplied \<and>
     map_of (query pu') ''__nextLocale'' = map_of (query (parsedURL st3)) ''__nextLocale'' \<and>
     map_of (query pu') ''__nextInferredLocaleFromDefault'' =
       map_of (query (parsedURL st3)) ''__nextInferredLocaleFromDefault'' \<and>
     (\<forall>key \<in> fst ` set (query pu').
        ''__nextLocale'' \<notin> set (normalizeNextQueryParam M key) \<and>
        ''__nextInferredLocaleFromDefault'' \<notin> set (normalizeNextQueryParam M key)) \<and>
     normalizeNextQueryParam M ''__nextLocale'' = [] \<and>
     normalizeNextQueryParam M ''__nextInferredLocaleFromDefault'' = []"
    using that by blast+
  {
    assume b: "supplied = Some ''fr'' \<and> ''__nextLocale'' \<notin> set keys"
    then have run: "l_pageIsDynamic L" "header_truthy (headers (req st4) ''x-now-route-matches'')"
      "isDynamicRoute M (l_matchedPath L)"
      "\<not> hasValidParams (params_from_query_or_url M (l_utils L) (l_normalizedUrlPath L)
                           (l_pageIsDynamic L) st4)"
      "snd (getParamsFromRouteMatches (l_utils L) (req st4) (route_matches_locale_arg st4))
         ''locale'' = Some ''fr''"
      by (auto simp: supplied split: if_splits)
    from adapt_from_dynamic_params_locale_supplied [OF run, of keys rpk did] b
    have "map_of final ''__nextLocale'' = Some (JString ''fr'') \<and>
          map_of final ''__nextInferredLocaleFromDefault'' = None"
      by (simp add: fin)
  }
  then show "map_of final ''__nextLocale'' = Some (JString ''fr'')"
    and "map_of final ''__nextInferredLocaleFromDefault'' = None"
    if "supplied = Some ''fr'' \<and> ''__nextLocale'' \<notin> set keys"
    using that by blast+
qed



theorem locale_keys_of_the_final_query_witness:
  "map_of (query (parsedURL (outcome_state (MinimalRequestAdapter_adapt sample_imports localized
     (localized_request ''/about'' [] [])))))
     ''__nextLocale'' = Some (JString ''en'') \<and>
   map_of (query (parsedURL (outcome_state (MinimalRequestAdapter_adapt sample_imports localized
     (localized_request ''/about'' [] [])))))
     ''__nextInferredLocaleFromDefault'' = Some (JString ''1'') \<and>
   map_of (query (parsedURL (outcome_state (MinimalRequestAdapter_adapt sample_imports localized
     (localized_request ''/blog/[slug]'' [(''x-now-route-matches'', HString ''fr/hello'')] [])))))
     ''__nextLocale'' = Some (JString ''fr'') \<and>
   map_of (query (parsedURL (outcome_state (MinimalRequestAdapter_adapt sample_imports localized
     (localized_request ''/blog/[slug]'' [(''x-now-route-matches'', HString ''fr/hello'')] [])))))
     ''__nextInferredLocaleFromDefault'' = None"
proof -
  let ?M = sample_imports
  let ?supplied = "\<lambda>L st4.
      (if l_pageIsDynamic L \<and> header_truthy (headers (req st4) ''x-now-route-matches'') \<and>
          isDynamicRoute ?M (l_matchedPath L) \<and>
          \<not> hasValidParams (params_from_query_or_url ?M (l_utils L) (l_normalizedUrlPath L)
                              (l_pageIsDynamic L) st4)
       then snd (getParamsFromRouteMatches (l_utils L) (req st4) (route_matches_locale_arg st4))
              ''locale''
       else None)"
  let ?A = "localized_request ''/about'' [] []"
  have "case adapt_to_url_pathnames ?M localized ?A of
          Inl e \<Rightarrow> False
        | Inr (i, mp, up, st1) \<Rightarrow>
            (case matched_path_stage ?M localized mp up st1 of
               (up', st2) \<Rightarrow>
                 (case adapt_to_rewrites ?M localized i mp up' st2 of
                    (L, st3) \<Rightarrow>
                      (case rewrite_and_rename ?M L st3 of
                         (rpk, did, keys, st4) \<Rightarrow>
                           l_defaultLocale L = Some ''en'' \<and>
                           (case l_localeAnalysisResult L of
                              None \<Rightarrow> False
                            | Some r \<Rightarrow> inferredFromDefault r \<and> detectedLocale r = Some ''en'') \<and>
                           \<not> string_truthy (?supplied L st4) \<and>
                           query (snd (handleRewrites (l_utils L) (req st3) (parsedURL st3))) =
                             query (parsedURL st3) \<and>
                           list_all
                             (\<lambda>key. ''__nextLocale'' \<notin> set (normalizeNextQueryParam ?M key) \<and>
                                    ''__nextInferredLocaleFromDefault'' \<notin>
                                      set (normalizeNextQueryParam ?M key))
                             (map fst (query (parsedURL st3))))))"
    by code_simp
  then obtain i mp up st1 up' st2 L st3 rpk did keys st4 rp pu' r where
    seg1: "adapt_to_url_pathnames ?M localized ?A = Inr (i, mp, up, st1)" and
    seg2: "matched_path_stage ?M localized mp up st1 = (up', st2)" and
    seg3: "adapt_to_rewrites ?M localized i mp up' st2 = (L, st3)" and
    seg4: "rewrite_and_rename ?M L st3 = (rpk, did, keys, st4)" and
    rw: "handleRewrites (l_utils L) (req st3) (parsedURL st3) = (rp, pu')" and
    a: "l_defaultLocale L = Some ''en''" "l_localeAnalysisResult L = Some r"
       "inferredFromDefault r" "detectedLocale r = Some ''en''"
       "\<not> string_truthy (?supplied L st4)"
       "query pu' = query (parsedURL st3)"
       "\<forall>key \<in> fst ` set (query pu').
          ''__nextLocale'' \<notin> set (normalizeNextQueryParam ?M key) \<and>
          ''__nextInferredLocaleFromDefault'' \<notin> set (normalizeNextQueryParam ?M key)"
    by (auto split: sum.splits prod.splits option.splits simp: list_all_iff)
       (metis prod.collapse)
  have n: "normalizeNextQueryParam ?M ''__nextLocale'' = []"
          "normalizeNextQueryParam ?M ''__nextInferredLocaleFromDefault'' = []"
    by code_simp+
  from locale_keys_of_the_final_query [OF seg1 seg2 seg3 rw seg4 refl refl, of r] a n
  have first: "map_of (query (parsedURL (outcome_state (MinimalRequestAdapter_adapt ?M localized ?A))))
                 ''__nextLocale'' = Some (JString ''en'') \<and>
               map_of (query (parsedURL (outcome_state (MinimalRequestAdapter_adapt ?M localized ?A))))
                 ''__nextInferredLocaleFromDefault'' = Some (JString ''1'')"
    by simp
  let ?B = "localized_request ''/blog/[slug]'' [(''x-now-route-matches'', HString ''fr/hello'')] []"
  have "case adapt_to_url_pathnames ?M localized ?B of
          Inl e \<Rightarrow> False
        | Inr (i, mp, up, st1) \<Rightarrow>
            (case matched_path_stage ?M localized mp up st1 of
               (up', st2) \<Rightarrow>
                 (case adapt_to_rewrites ?M localized i mp up' st2 of
                    (L, st3) \<Rightarrow>
                      (case rewrite_and_rename ?M L st3 of
                         (rpk, did, keys, st4) \<Rightarrow>
                           ?supplied L st4 = Some ''fr'' \<and> ''__nextLocale'' \<notin> set keys)))"
    by code_simp
  then obtain i mp up st1 up' st2 L st3 rpk did keys st4 rp pu' where
    seg1: "adapt_to_url_pathnames ?M localized ?B = Inr (i, mp, up, st1)" and
    seg2: "matched_path_stage ?M localized mp up st1 = (up', st2)" and
    seg3: "adapt_to_rewrites ?M localized i mp up' st2 = (L, st3)" and
    seg4: "rewrite_and_rename ?M L st3 = (rpk, did, keys, st4)" and
    rw: "handleRewrites (l_utils L) (req st3) (parsedURL st3) = (rp, pu')" and
    b: "?supplied L st4 = Some ''fr''" "''__nextLocale'' \<notin> set keys"
    by (auto split: sum.splits prod.splits) (metis prod.collapse)
  from locale_keys_of_the_final_query [OF seg1 seg2 seg3 rw seg4 refl refl] b
  have second: "map_of (query (parsedURL (outcome_state (MinimalRequestAdapter_adapt ?M localized ?B))))
                 ''__nextLocale'' = Some (JString ''fr'') \<and>
               map_of (query (parsedURL (outcome_state (MinimalRequestAdapter_adapt ?M localized ?B))))
                 ''__nextInferredLocaleFromDefault'' = None"
    by simp
  from first second show ?thesis by simp
qed

end
